theory Spec2Isabelle
  imports Complex_Main "HOL-Library.AList"
begin

section \<open>Decoded request payloads and Python failures\<close>

text \<open>
  Every view of \<^verbatim>\<open>risk_management/views.py\<close> starts from a decoded JSON document
  (\<^verbatim>\<open>json.loads\<close>) or from the query string (\<^verbatim>\<open>request.GET.dict()\<close>). A decoded
  document is a value of \<open>json\<close>; an object is the item list of the Python dict (one entry
  per key). A JSON number without fraction or exponent decodes to a Python \<^verbatim>\<open>int\<close>
  (unbounded), any other to a \<^verbatim>\<open>float\<close>: an IEEE 754 double, which is a real number,
  an infinity or NaN (\<^verbatim>\<open>json.loads\<close> reads \<^verbatim>\<open>Infinity\<close>, \<^verbatim>\<open>NaN\<close> and
  \<^verbatim>\<open>1e999\<close>). The sign of a zero is not represented; the section on numbers says
  why the views cannot tell.
\<close>

datatype pyfloat = Finite real | PosInf | NegInf | NaN

datatype json =
    JNull
  | JBool bool
  | JInt int
  | JFloat pyfloat
  | JStr string
  | JList "json list"
  | JObj "(string \<times> json) list"

text \<open>The exceptions a view can let escape; each one ends the request.\<close>

datatype py_error =
    KeyError string
  | TypeError
  | AttributeError
  | DoesNotExist
  | MultipleObjectsReturned
  | StorageError
  | OverflowError
  | ZeroDivisionError

text \<open>Sequencing of steps that may raise: the first failure is the result.\<close>

definition bind_err :: "py_error + 'a \<Rightarrow> ('a \<Rightarrow> py_error + 'b) \<Rightarrow> py_error + 'b" where
  "bind_err m f = (case m of Inl e \<Rightarrow> Inl e | Inr x \<Rightarrow> f x)"

text \<open>
  \<^verbatim>\<open>body[key]\<close> with a string key: a dict answers with the value or raises KeyError; every
  other JSON value (list, string, number, boolean, null) raises TypeError.
\<close>

definition py_getitem :: "json \<Rightarrow> string \<Rightarrow> py_error + json" where
  "py_getitem body k =
     (case body of
        JObj kvs \<Rightarrow> (case map_of kvs k of None \<Rightarrow> Inl (KeyError k) | Some v \<Rightarrow> Inr v)
      | _ \<Rightarrow> Inl TypeError)"

text \<open>\<^verbatim>\<open>key in body.keys()\<close>: only a dict has \<^verbatim>\<open>keys\<close>.\<close>

definition py_in_keys :: "string \<Rightarrow> json \<Rightarrow> py_error + bool" where
  "py_in_keys k body =
     (case body of
        JObj kvs \<Rightarrow> Inr (k \<in> set (map fst kvs))
      | _ \<Rightarrow> Inl AttributeError)"

text \<open>
  \<^verbatim>\<open>for item in x\<close>: a list yields its elements, a string its characters, a dict its
  keys; anything else is not iterable.
\<close>

definition py_iter :: "json \<Rightarrow> py_error + json list" where
  "py_iter x =
     (case x of
        JList xs \<Rightarrow> Inr xs
      | JStr s \<Rightarrow> Inr (map (\<lambda>c. JStr [c]) s)
      | JObj kvs \<Rightarrow> Inr (map (\<lambda>kv. JStr (fst kv)) kvs)
      | _ \<Rightarrow> Inl TypeError)"

section \<open>Python numbers\<close>

text \<open>
  A float operation gives the double nearest to the exact result, ties to the even
  significand. \<open>nearest_double\<close> rounds to 53 significant bits at the exponent of its
  argument, and to a multiple of \<open>2 powr -1074\<close> below the smallest normal number
  \<open>2 powr -1022\<close>; \<open>double_round\<close> gives an infinity from \<open>2 ^ 1024 - 2 ^ 970\<close> on,
  the first magnitude that rounds beyond the largest double.
\<close>

definition round_half_even :: "real \<Rightarrow> int" where
  "round_half_even q =
     (let f = \<lfloor>q\<rfloor>; d = q - of_int f
      in if d < 1 / 2 then f else if 1 / 2 < d then f + 1 else if even f then f else f + 1)"

definition nearest_double :: "real \<Rightarrow> real" where
  "nearest_double x =
     (if x = 0 then 0
      else let e = max \<lfloor>log 2 \<bar>x\<bar>\<rfloor> (- 1022);
               ulp = 2 powr of_int (e - 52)
           in of_int (round_half_even (x / ulp)) * ulp)"

definition double_round :: "real \<Rightarrow> pyfloat" where
  "double_round x =
     (if 2 ^ 1024 - 2 ^ 970 \<le> \<bar>x\<bar> then (if 0 < x then PosInf else NegInf)
      else Finite (nearest_double x))"

text \<open>
  The float operations of the views: \<^verbatim>\<open>+\<close>, \<^verbatim>\<open>-\<close>, \<^verbatim>\<open>*\<close> and \<^verbatim>\<open>/\<close> on doubles.
  None of them raises on overflow: the result is an infinity, and NaN where IEEE 754 has
  no value. (\<open>float_div\<close> is only reached with a divisor that is not zero.)
\<close>

fun float_neg :: "pyfloat \<Rightarrow> pyfloat" where
  "float_neg (Finite x) = Finite (- x)"
| "float_neg PosInf = NegInf"
| "float_neg NegInf = PosInf"
| "float_neg NaN = NaN"

fun float_add :: "pyfloat \<Rightarrow> pyfloat \<Rightarrow> pyfloat" where
  "float_add (Finite x) (Finite y) = double_round (x + y)"
| "float_add NaN b = NaN"
| "float_add a NaN = NaN"
| "float_add PosInf NegInf = NaN"
| "float_add NegInf PosInf = NaN"
| "float_add PosInf b = PosInf"
| "float_add a PosInf = PosInf"
| "float_add NegInf b = NegInf"
| "float_add a NegInf = NegInf"

definition float_sub :: "pyfloat \<Rightarrow> pyfloat \<Rightarrow> pyfloat" where
  "float_sub a b = float_add a (float_neg b)"

fun float_mul :: "pyfloat \<Rightarrow> pyfloat \<Rightarrow> pyfloat" where
  "float_mul (Finite x) (Finite y) = double_round (x * y)"
| "float_mul NaN b = NaN"
| "float_mul a NaN = NaN"
| "float_mul (Finite x) PosInf = (if x = 0 then NaN else if 0 < x then PosInf else NegInf)"
| "float_mul (Finite x) NegInf = (if x = 0 then NaN else if 0 < x then NegInf else PosInf)"
| "float_mul PosInf (Finite y) = (if y = 0 then NaN else if 0 < y then PosInf else NegInf)"
| "float_mul NegInf (Finite y) = (if y = 0 then NaN else if 0 < y then NegInf else PosInf)"
| "float_mul PosInf PosInf = PosInf"
| "float_mul PosInf NegInf = NegInf"
| "float_mul NegInf PosInf = NegInf"
| "float_mul NegInf NegInf = PosInf"

fun float_div :: "pyfloat \<Rightarrow> pyfloat \<Rightarrow> pyfloat" where
  "float_div (Finite x) (Finite y) = double_round (x / y)"
| "float_div NaN b = NaN"
| "float_div a NaN = NaN"
| "float_div (Finite x) PosInf = Finite 0"
| "float_div (Finite x) NegInf = Finite 0"
| "float_div PosInf (Finite y) = (if 0 < y then PosInf else NegInf)"
| "float_div NegInf (Finite y) = (if 0 < y then NegInf else PosInf)"
| "float_div PosInf b = NaN"
| "float_div NegInf b = NaN"

text \<open>
  A Python number is an \<^verbatim>\<open>int\<close> or a \<^verbatim>\<open>float\<close>. Two ints add, subtract and
  multiply exactly. When one operand is a float the int is converted first, which raises
  OverflowError when the int rounds beyond the largest double. \<^verbatim>\<open>/\<close> on two ints is
  the correctly rounded quotient, OverflowError when that is beyond the largest double;
  a zero divisor raises ZeroDivisionError.
\<close>

datatype pynum = PInt int | PFloat pyfloat

definition float_of_int :: "int \<Rightarrow> py_error + pyfloat" where
  "float_of_int n =
     (case double_round (of_int n) of Finite x \<Rightarrow> Inr (Finite x) | _ \<Rightarrow> Inl OverflowError)"

definition to_float :: "pynum \<Rightarrow> py_error + pyfloat" where
  "to_float a = (case a of PInt n \<Rightarrow> float_of_int n | PFloat x \<Rightarrow> Inr x)"

definition num_add :: "pynum \<Rightarrow> pynum \<Rightarrow> py_error + pynum" where
  "num_add a b =
     (case (a, b) of
        (PInt m, PInt n) \<Rightarrow> Inr (PInt (m + n))
      | _ \<Rightarrow> bind_err (to_float a) (\<lambda>x. bind_err (to_float b) (\<lambda>y. Inr (PFloat (float_add x y)))))"

definition num_sub :: "pynum \<Rightarrow> pynum \<Rightarrow> py_error + pynum" where
  "num_sub a b =
     (case (a, b) of
        (PInt m, PInt n) \<Rightarrow> Inr (PInt (m - n))
      | _ \<Rightarrow> bind_err (to_float a) (\<lambda>x. bind_err (to_float b) (\<lambda>y. Inr (PFloat (float_sub x y)))))"

definition num_mul :: "pynum \<Rightarrow> pynum \<Rightarrow> py_error + pynum" where
  "num_mul a b =
     (case (a, b) of
        (PInt m, PInt n) \<Rightarrow> Inr (PInt (m * n))
      | _ \<Rightarrow> bind_err (to_float a) (\<lambda>x. bind_err (to_float b) (\<lambda>y. Inr (PFloat (float_mul x y)))))"

definition num_truediv :: "pynum \<Rightarrow> pynum \<Rightarrow> py_error + pynum" where
  "num_truediv a b =
     (case (a, b) of
        (PInt m, PInt n) \<Rightarrow>
          if n = 0 then Inl ZeroDivisionError
          else (case double_round (of_int m / of_int n) of
                  Finite q \<Rightarrow> Inr (PFloat (Finite q))
                | _ \<Rightarrow> Inl OverflowError)
      | _ \<Rightarrow>
          bind_err (to_float a) (\<lambda>x. bind_err (to_float b) (\<lambda>y.
            if y = Finite 0 then Inl ZeroDivisionError else Inr (PFloat (float_div x y)))))"

text \<open>
  The numeric reading of a JSON value in arithmetic: numbers, and booleans as the ints 0
  and 1 (\<^verbatim>\<open>bool\<close> is a subclass of \<^verbatim>\<open>int\<close>); and the way back.
\<close>

definition py_number :: "json \<Rightarrow> pynum option" where
  "py_number v =
     (case v of
        JInt n \<Rightarrow> Some (PInt n)
      | JFloat x \<Rightarrow> Some (PFloat x)
      | JBool b \<Rightarrow> Some (PInt (if b then 1 else 0))
      | _ \<Rightarrow> None)"

definition json_of_num :: "pynum \<Rightarrow> json" where
  "json_of_num a = (case a of PInt n \<Rightarrow> JInt n | PFloat x \<Rightarrow> JFloat x)"

text \<open>
  \<^verbatim>\<open>value != n\<close> for an integer literal \<open>n\<close>: only a number can be equal to it, and
  an int and a float are compared by their exact values.
\<close>

definition py_ne :: "json \<Rightarrow> int \<Rightarrow> bool" where
  "py_ne v n =
     (case py_number v of
        Some (PInt m) \<Rightarrow> m \<noteq> n
      | Some (PFloat (Finite x)) \<Rightarrow> x \<noteq> of_int n
      | _ \<Rightarrow> True)"

section \<open>Responses\<close>

text \<open>The body of a \<^verbatim>\<open>JsonResponse({'status': s, 'message': m})\<close>.\<close>

definition status_message :: "string \<Rightarrow> string \<Rightarrow> json" where
  "status_message s m = JObj [(''status'', JStr s), (''message'', JStr m)]"

section \<open>The record store\<close>

text \<open>
  Modelled from the spec: the record store of section 6 (\<^verbatim>\<open>risk_management/models.py\<close>
  and the database behind it are not among the sources). A table is the list of its
  rows in creation order, each row a primary key and the model object's fields as the
  view assigned them; the creation and update timestamps, which no view reads or writes,
  are left out. A write is a single-record write: the store either appends the row under a
  fresh key or refuses it (\<open>StorageError\<close>) and stays as it was. What the models'
  field declarations accept, how a supplied key is coerced, and which extra filters a
  query understands are parameters (\<open>orm\<close>) of every view.
\<close>

record RiskProfile =
  rp_name :: json

record RiskFactor =
  rf_risk_profile_id :: nat
  rf_attribute :: json
  rf_changing_assumption :: json
  rf_percentage_change :: json

record RiskConditional =
  rc_risk_factor_id :: nat
  rc_conditional :: json
  rc_value :: json

text \<open>
  The four default assumptions are attributes assigned after construction; \<open>None\<close> is
  an attribute never assigned.
\<close>

record AssumptionProfile =
  ap_name :: json
  ap_gdp_growth :: json
  ap_unemployment_rate :: json
  ap_national_home_price_index_growth :: json
  ap_high_yield_spread :: json
  ap_constant_default_rate :: "json option"
  ap_constant_prepayment_rate :: "json option"
  ap_recovery :: "json option"
  ap_lag :: "json option"

record store =
  risk_profiles :: "(nat \<times> RiskProfile) list"
  risk_factors :: "(nat \<times> RiskFactor) list"
  risk_conditionals :: "(nat \<times> RiskConditional) list"
  assumption_profiles :: "(nat \<times> AssumptionProfile) list"

record orm =
  to_pk :: "json \<Rightarrow> py_error + nat"
  accepts_RiskProfile :: "RiskProfile \<Rightarrow> bool"
  accepts_RiskFactor :: "RiskFactor \<Rightarrow> bool"
  accepts_RiskConditional :: "RiskConditional \<Rightarrow> bool"
  accepts_AssumptionProfile :: "AssumptionProfile \<Rightarrow> bool"
  RiskFactor_lookup :: "string \<Rightarrow> string \<Rightarrow> py_error + (nat \<times> RiskFactor \<Rightarrow> bool)"

text \<open>A key no row of the table has.\<close>

definition fresh_pk :: "(nat \<times> 'a) list \<Rightarrow> nat" where
  "fresh_pk tbl = Suc (foldr max (map fst tbl) 0)"

definition AssumptionProfile_save :: "orm \<Rightarrow> AssumptionProfile \<Rightarrow> store \<Rightarrow> py_error + store" where
  "AssumptionProfile_save db row st =
     (if accepts_AssumptionProfile db row
      then Inr (st\<lparr>assumption_profiles :=
                  assumption_profiles st @ [(fresh_pk (assumption_profiles st), row)]\<rparr>)
      else Inl StorageError)"

section \<open>AssumptionProfileAPI.post\<close>

text \<open>
  \<^verbatim>\<open>setattr(new_assumption_profile, key, value)\<close>, for the four keys of
  \<^verbatim>\<open>default_assumptions\<close>.
\<close>

definition setattr :: "AssumptionProfile \<Rightarrow> string \<Rightarrow> json \<Rightarrow> AssumptionProfile" where
  "setattr p key v =
     (if key = ''constant_default_rate'' then p\<lparr>ap_constant_default_rate := Some v\<rparr>
      else if key = ''constant_prepayment_rate'' then p\<lparr>ap_constant_prepayment_rate := Some v\<rparr>
      else if key = ''recovery'' then p\<lparr>ap_recovery := Some v\<rparr>
      else if key = ''lag'' then p\<lparr>ap_lag := Some v\<rparr>
      else p)"

text \<open>
  The three formulas of the view, operation by operation in the order Python evaluates
  them:
  \<^verbatim>\<open>
  cdr = (gdp_growth * -1 + 6.5)
  cdr += (unemployment_rate * 1.2 - 5.5)
  cpr = high_yield_spread * -10/9 + 245/9
  recovery = national_home_price_index * 2.5 + 50
  \<close>
  The literals \<^verbatim>\<open>6.5\<close>, \<^verbatim>\<open>5.5\<close> and \<^verbatim>\<open>2.5\<close> are doubles; \<^verbatim>\<open>1.2\<close> is not, and
  stands for the double nearest to it. A macro input that is not a number makes its
  expression raise TypeError before the next input is touched (a string or list survives
  \<^verbatim>\<open>* -1\<close> and \<^verbatim>\<open>* -10\<close> as an empty sequence, and the next operation raises).
  No expression can give a negative zero, and none can tell a negative zero from a
  positive one in its input: every product or quotient is next added to a constant that
  is not zero, and a sum of two numbers that are not both negative zeros is never a
  negative zero.
\<close>

definition compute_cdr :: "json \<Rightarrow> json \<Rightarrow> py_error + json" where
  "compute_cdr gdp_growth unemployment_rate =
     (case py_number gdp_growth of
        None \<Rightarrow> Inl TypeError
      | Some g \<Rightarrow>
          bind_err (num_mul g (PInt (- 1))) (\<lambda>a.
          bind_err (num_add a (PFloat (Finite 6.5))) (\<lambda>cdr.
          (case py_number unemployment_rate of
             None \<Rightarrow> Inl TypeError
           | Some u \<Rightarrow>
               bind_err (num_mul u (PFloat (double_round 1.2))) (\<lambda>b.
               bind_err (num_sub b (PFloat (Finite 5.5))) (\<lambda>d.
               bind_err (num_add cdr d) (\<lambda>s. Inr (json_of_num s))))))))"

definition compute_cpr :: "json \<Rightarrow> py_error + json" where
  "compute_cpr high_yield_spread =
     (case py_number high_yield_spread of
        None \<Rightarrow> Inl TypeError
      | Some y \<Rightarrow>
          bind_err (num_mul y (PInt (- 10))) (\<lambda>a.
          bind_err (num_truediv a (PInt 9)) (\<lambda>b.
          bind_err (num_truediv (PInt 245) (PInt 9)) (\<lambda>k.
          bind_err (num_add b k) (\<lambda>s. Inr (json_of_num s))))))"

definition compute_recovery :: "json \<Rightarrow> py_error + json" where
  "compute_recovery national_home_price_index =
     (case py_number national_home_price_index of
        None \<Rightarrow> Inl TypeError
      | Some h \<Rightarrow>
          bind_err (num_mul h (PFloat (Finite 2.5))) (\<lambda>a.
          bind_err (num_add a (PInt 50)) (\<lambda>s. Inr (json_of_num s))))"

text \<open>
  One round of \<^verbatim>\<open>for key, value in default_assumptions.items()\<close>: a value other than
  -100 is assigned as it is; at -100 the four \<^verbatim>\<open>if key == ...\<close> tests run in turn.
\<close>

definition assumption_step ::
  "json \<Rightarrow> json \<Rightarrow> json \<Rightarrow> json \<Rightarrow> string \<times> json \<Rightarrow> AssumptionProfile
     \<Rightarrow> py_error + AssumptionProfile" where
  "assumption_step gdp_growth unemployment_rate national_home_price_index high_yield_spread kv p =
     (let key = fst kv; v = snd kv in
      if py_ne v (- 100) then Inr (setattr p key v)
      else
        bind_err (if key = ''constant_default_rate''
                  then bind_err (compute_cdr gdp_growth unemployment_rate)
                         (\<lambda>cdr. Inr (p\<lparr>ap_constant_default_rate := Some cdr\<rparr>))
                  else Inr p) (\<lambda>p1.
        bind_err (if key = ''constant_prepayment_rate''
                  then bind_err (compute_cpr high_yield_spread)
                         (\<lambda>cpr. Inr (p1\<lparr>ap_constant_prepayment_rate := Some cpr\<rparr>))
                  else Inr p1) (\<lambda>p2.
        bind_err (if key = ''recovery''
                  then bind_err (compute_recovery national_home_price_index)
                         (\<lambda>recovery. Inr (p2\<lparr>ap_recovery := Some recovery\<rparr>))
                  else Inr p2) (\<lambda>p3.
        if key = ''lag'' then Inr (p3\<lparr>ap_lag := Some v\<rparr>) else Inr p3))))"

fun assumption_loop ::
  "json \<Rightarrow> json \<Rightarrow> json \<Rightarrow> json \<Rightarrow> (string \<times> json) list \<Rightarrow> AssumptionProfile
     \<Rightarrow> py_error + AssumptionProfile" where
  "assumption_loop g u h y [] p = Inr p"
| "assumption_loop g u h y (kv # kvs) p =
     bind_err (assumption_step g u h y kv p) (assumption_loop g u h y kvs)"

text \<open>
  The object the view hands to \<^verbatim>\<open>save()\<close>: the nine \<^verbatim>\<open>body[...]\<close> reads in the
  order of the source, the construction of the model object, and the loop over
  \<^verbatim>\<open>default_assumptions\<close> in the order its keys were written.
\<close>

definition resolveAssumptionProfile :: "json \<Rightarrow> py_error + AssumptionProfile" where
  "resolveAssumptionProfile body =
     bind_err (py_getitem body ''name'') (\<lambda>name.
     bind_err (py_getitem body ''gdp_growth'') (\<lambda>gdp_growth.
     bind_err (py_getitem body ''unemployment_rate'') (\<lambda>unemployment_rate.
     bind_err (py_getitem body ''national_home_price_index'') (\<lambda>national_home_price_index.
     bind_err (py_getitem body ''high_yield_spread'') (\<lambda>high_yield_spread.
     let new_assumption_profile =
           \<lparr>ap_name = name,
            ap_gdp_growth = gdp_growth,
            ap_unemployment_rate = unemployment_rate,
            ap_national_home_price_index_growth = national_home_price_index,
            ap_high_yield_spread = high_yield_spread,
            ap_constant_default_rate = None,
            ap_constant_prepayment_rate = None,
            ap_recovery = None,
            ap_lag = None\<rparr>
     in
     bind_err (py_getitem body ''constant_default_rate'') (\<lambda>cdr_input.
     bind_err (py_getitem body ''constant_prepayment_rate'') (\<lambda>cpr_input.
     bind_err (py_getitem body ''recovery'') (\<lambda>recovery_input.
     bind_err (py_getitem body ''lag'') (\<lambda>lag_input.
     assumption_loop gdp_growth unemployment_rate national_home_price_index high_yield_spread
       [(''constant_default_rate'', cdr_input),
        (''constant_prepayment_rate'', cpr_input),
        (''recovery'', recovery_input),
        (''lag'', lag_input)]
       new_assumption_profile)))))))))"

definition AssumptionProfileAPI_post :: "orm \<Rightarrow> json \<Rightarrow> store \<Rightarrow> (py_error + json) \<times> store" where
  "AssumptionProfileAPI_post db body st =
     (case resolveAssumptionProfile body of
        Inl e \<Rightarrow> (Inl e, st)
      | Inr new_assumption_profile \<Rightarrow>
          (case AssumptionProfile_save db new_assumption_profile st of
             Inl e \<Rightarrow> (Inl e, st)
           | Inr st' \<Rightarrow> (Inr (status_message ''OK'' ''Assumption Profile Created!!''), st')))"

section \<open>RiskProfileAPI.post\<close>

definition RiskProfile_save :: "orm \<Rightarrow> RiskProfile \<Rightarrow> store \<Rightarrow> py_error + store" where
  "RiskProfile_save db row st =
     (if accepts_RiskProfile db row
      then Inr (st\<lparr>risk_profiles := risk_profiles st @ [(fresh_pk (risk_profiles st), row)]\<rparr>)
      else Inl StorageError)"

definition RiskProfileAPI_post :: "orm \<Rightarrow> json \<Rightarrow> store \<Rightarrow> (py_error + json) \<times> store" where
  "RiskProfileAPI_post db body st =
     (case py_getitem body ''name'' of
        Inl e \<Rightarrow> (Inl e, st)
      | Inr name \<Rightarrow>
          (case RiskProfile_save db \<lparr>rp_name = name\<rparr> st of
             Inl e \<Rightarrow> (Inl e, st)
           | Inr st' \<Rightarrow> (Inr (status_message ''OK'' ''Risk Profile Created!!''), st')))"

section \<open>RiskFactorAPI\<close>

text \<open>
  \<^verbatim>\<open>RiskProfile.objects.filter(pk=...)\<close>: the rows under the key the supplied value
  stands for, and \<^verbatim>\<open>RiskProfile.objects.get(pk=...)\<close>: the one such row.
\<close>

definition RiskProfile_filter_pk ::
  "orm \<Rightarrow> json \<Rightarrow> store \<Rightarrow> py_error + (nat \<times> RiskProfile) list" where
  "RiskProfile_filter_pk db pk st =
     bind_err (to_pk db pk) (\<lambda>k. Inr (filter (\<lambda>row. fst row = k) (risk_profiles st)))"

definition RiskProfile_get_pk :: "orm \<Rightarrow> json \<Rightarrow> store \<Rightarrow> py_error + nat \<times> RiskProfile" where
  "RiskProfile_get_pk db pk st =
     bind_err (RiskProfile_filter_pk db pk st) (\<lambda>rows.
       case rows of
         [] \<Rightarrow> Inl DoesNotExist
       | [row] \<Rightarrow> Inr row
       | _ \<Rightarrow> Inl MultipleObjectsReturned)"

text \<open>\<^verbatim>\<open>save()\<close> of a new factor gives the object its key.\<close>

definition RiskFactor_save :: "orm \<Rightarrow> RiskFactor \<Rightarrow> store \<Rightarrow> py_error + nat \<times> store" where
  "RiskFactor_save db row st =
     (if accepts_RiskFactor db row
      then Inr (fresh_pk (risk_factors st),
                st\<lparr>risk_factors := risk_factors st @ [(fresh_pk (risk_factors st), row)]\<rparr>)
      else Inl StorageError)"

definition RiskConditional_save :: "orm \<Rightarrow> RiskConditional \<Rightarrow> store \<Rightarrow> py_error + store" where
  "RiskConditional_save db row st =
     (if accepts_RiskConditional db row
      then Inr (st\<lparr>risk_conditionals :=
                  risk_conditionals st @ [(fresh_pk (risk_conditionals st), row)]\<rparr>)
      else Inl StorageError)"

text \<open>
  One conditional as the loop body builds it from an entry of \<^verbatim>\<open>conditionals_list\<close>:
  \<^verbatim>\<open>
  new_risk_condtional = RiskConditional(risk_factor=new_risk_factor)
  new_risk_condtional.conditional = item['conditional']
  new_risk_condtional.value = item['value']
  \<close>
\<close>

definition new_risk_conditional :: "nat \<Rightarrow> json \<Rightarrow> py_error + RiskConditional" where
  "new_risk_conditional new_risk_factor item =
     bind_err (py_getitem item ''conditional'') (\<lambda>c.
     bind_err (py_getitem item ''value'') (\<lambda>v.
     Inr \<lparr>rc_risk_factor_id = new_risk_factor, rc_conditional = c, rc_value = v\<rparr>))"

text \<open>
  \<^verbatim>\<open>for item in conditionals_list\<close>: each round builds and saves one conditional. A
  round that raises ends the loop; what earlier rounds saved stays in the store.
\<close>

fun conditionals_loop :: "orm \<Rightarrow> nat \<Rightarrow> json list \<Rightarrow> store \<Rightarrow> (py_error + unit) \<times> store" where
  "conditionals_loop db new_risk_factor [] st = (Inr (), st)"
| "conditionals_loop db new_risk_factor (item # items) st =
     (case bind_err (new_risk_conditional new_risk_factor item)
             (\<lambda>row. RiskConditional_save db row st) of
        Inl e \<Rightarrow> (Inl e, st)
      | Inr st' \<Rightarrow> conditionals_loop db new_risk_factor items st')"

text \<open>
  The factor the view assembles before \<^verbatim>\<open>new_risk_factor.save()\<close>: the owning profile
  is fetched with \<^verbatim>\<open>get\<close>, then the three fields are read from the body.
\<close>

definition new_risk_factor_fields :: "orm \<Rightarrow> json \<Rightarrow> json \<Rightarrow> store \<Rightarrow> py_error + RiskFactor" where
  "new_risk_factor_fields db body risk_profile_id st =
     bind_err (RiskProfile_get_pk db risk_profile_id st) (\<lambda>risk_profile.
     bind_err (py_getitem body ''risk_factor_attribute'') (\<lambda>attribute.
     bind_err (py_getitem body ''changing_assumption'') (\<lambda>changing_assumption.
     bind_err (py_getitem body ''percentage_change'') (\<lambda>percentage_change.
     Inr \<lparr>rf_risk_profile_id = fst risk_profile,
          rf_attribute = attribute,
          rf_changing_assumption = changing_assumption,
          rf_percentage_change = percentage_change\<rparr>))))"

text \<open>
  The part of the view after \<^verbatim>\<open>new_risk_factor.save()\<close>, on the store that already
  holds the factor: the read of \<^verbatim>\<open>conditionals_list\<close>, the loop, and the answer.
  (The \<^verbatim>\<open>print\<close> of the list has no effect on the store or the answer.)
\<close>

definition create_conditionals :: "orm \<Rightarrow> json \<Rightarrow> nat \<Rightarrow> store \<Rightarrow> (py_error + json) \<times> store" where
  "create_conditionals db body new_risk_factor st =
     (case bind_err (py_getitem body ''conditionals_list'') py_iter of
        Inl e \<Rightarrow> (Inl e, st)
      | Inr items \<Rightarrow>
          (case conditionals_loop db new_risk_factor items st of
             (Inl e, st') \<Rightarrow> (Inl e, st')
           | (Inr u, st') \<Rightarrow> (Inr (status_message ''PASS'' ''Risk Factor added.''), st')))"

definition RiskFactorAPI_post :: "orm \<Rightarrow> json \<Rightarrow> store \<Rightarrow> (py_error + json) \<times> store" where
  "RiskFactorAPI_post db body st =
     (case py_in_keys ''risk_profile_id'' body of
        Inl e \<Rightarrow> (Inl e, st)
      | Inr False \<Rightarrow> (Inr (status_message ''FAIL'' ''Risk Profile ID must be provided.''), st)
      | Inr True \<Rightarrow>
          (case bind_err (py_getitem body ''risk_profile_id'')
                  (\<lambda>risk_profile_id.
                     bind_err (RiskProfile_filter_pk db risk_profile_id st)
                       (\<lambda>risk_profile. Inr (risk_profile_id, risk_profile))) of
             Inl e \<Rightarrow> (Inl e, st)
           | Inr (risk_profile_id, risk_profile) \<Rightarrow>
               if risk_profile \<noteq> [] then
                 (case bind_err (new_risk_factor_fields db body risk_profile_id st)
                         (\<lambda>row. RiskFactor_save db row st) of
                    Inl e \<Rightarrow> (Inl e, st)
                  | Inr (new_risk_factor, st1) \<Rightarrow> create_conditionals db body new_risk_factor st1)
               else (Inr (status_message ''FAIL'' ''Risk Profile provided does not exist.''), st)))"

text \<open>
  \<^verbatim>\<open>RiskFactorAPI.get\<close>. The query string is a dict of strings; the view adds the
  query set of the profile under \<^verbatim>\<open>'risk_profile'\<close> and filters the factors by every
  entry of the dict, \<^verbatim>\<open>'risk_profile_id'\<close> included.
\<close>

datatype filter_value = FStr string | FQuerySet "(nat \<times> RiskProfile) list"

text \<open>
  Modelled from the spec: the query of the record store of section 6 (exact match, the
  entries combined with AND). The two entries that name the owning profile select the
  factors of that profile; what any other entry selects is the store's
  (\<open>RiskFactor_lookup\<close>), which may refuse it.
\<close>

definition RiskFactor_filter_entry ::
  "orm \<Rightarrow> string \<times> filter_value \<Rightarrow> py_error + (nat \<times> RiskFactor \<Rightarrow> bool)" where
  "RiskFactor_filter_entry db entry =
     (case snd entry of
        FQuerySet rows \<Rightarrow>
          (if fst entry = ''risk_profile''
           then Inr (\<lambda>row. rf_risk_profile_id (snd row) \<in> set (map fst rows))
           else Inl StorageError)
      | FStr s \<Rightarrow>
          (if fst entry = ''risk_profile_id''
           then bind_err (to_pk db (JStr s)) (\<lambda>k. Inr (\<lambda>row. rf_risk_profile_id (snd row) = k))
           else RiskFactor_lookup db (fst entry) s))"

fun RiskFactor_filter_entries ::
  "orm \<Rightarrow> (string \<times> filter_value) list \<Rightarrow> py_error + (nat \<times> RiskFactor \<Rightarrow> bool) list" where
  "RiskFactor_filter_entries db [] = Inr []"
| "RiskFactor_filter_entries db (entry # entries) =
     bind_err (RiskFactor_filter_entry db entry) (\<lambda>t.
     bind_err (RiskFactor_filter_entries db entries) (\<lambda>ts. Inr (t # ts)))"

definition RiskFactor_filter ::
  "orm \<Rightarrow> (string \<times> filter_value) list \<Rightarrow> store \<Rightarrow> py_error + (nat \<times> RiskFactor) list" where
  "RiskFactor_filter db filter_dict st =
     bind_err (RiskFactor_filter_entries db filter_dict) (\<lambda>ts.
       Inr (filter (\<lambda>row. list_all (\<lambda>t. t row) ts) (risk_factors st)))"

text \<open>\<^verbatim>\<open>.values()\<close>: a row as a dict of its columns.\<close>

definition RiskFactor_values :: "nat \<times> RiskFactor \<Rightarrow> json" where
  "RiskFactor_values row =
     JObj [(''id'', JInt (int (fst row))),
           (''risk_profile_id'', JInt (int (rf_risk_profile_id (snd row)))),
           (''attribute'', rf_attribute (snd row)),
           (''changing_assumption'', rf_changing_assumption (snd row)),
           (''percentage_change'', rf_percentage_change (snd row))]"

definition RiskFactorAPI_get :: "orm \<Rightarrow> (string \<times> string) list \<Rightarrow> store \<Rightarrow> py_error + json" where
  "RiskFactorAPI_get db GET st =
     (case map_of GET ''risk_profile_id'' of
        None \<Rightarrow> Inl (KeyError ''risk_profile_id'')
      | Some risk_profile_id \<Rightarrow>
          bind_err (RiskProfile_filter_pk db (JStr risk_profile_id) st) (\<lambda>risk_profile.
            if risk_profile \<noteq> [] then
              bind_err (RiskFactor_filter db
                          (AList.update ''risk_profile'' (FQuerySet risk_profile)
                             (map (\<lambda>kv. (fst kv, FStr (snd kv))) GET)) st)
                (\<lambda>risk_profile_risk_factors.
                   Inr (JObj [(''risk_factors'',
                               JList (map RiskFactor_values risk_profile_risk_factors))]))
            else Inr (status_message ''FAIL'' ''Risk Profile provided does not exist.'')))"

section \<open>Sample requests\<close>

text \<open>
  A store that refuses nothing, reads a key from an int that is not negative or from a decimal string, and
  knows one extra filter (\<^verbatim>\<open>attribute\<close>, by exact match); and requests after the
  examples in the docstrings of the views, with macro inputs that are doubles.
\<close>

definition parse_pk :: "string \<Rightarrow> nat option" where
  "parse_pk s =
     (if s = [] then None
      else foldl (\<lambda>acc c. case (acc, map_of [(CHR ''0'', 0), (CHR ''1'', 1), (CHR ''2'', 2),
                                  (CHR ''3'', 3), (CHR ''4'', 4), (CHR ''5'', 5), (CHR ''6'', 6),
                                  (CHR ''7'', 7), (CHR ''8'', 8), (CHR ''9'', 9)] c) of
                            (Some a, Some d) \<Rightarrow> Some (10 * a + d)
                          | _ \<Rightarrow> None) (Some 0) s)"

definition lenient_orm :: orm where
  "lenient_orm =
     \<lparr>to_pk = (\<lambda>v. case v of
                  JInt n \<Rightarrow> if 0 \<le> n then Inr (nat n) else Inl StorageError
                | JStr s \<Rightarrow> (case parse_pk s of Some k \<Rightarrow> Inr k | None \<Rightarrow> Inl StorageError)
                | _ \<Rightarrow> Inl StorageError),
      accepts_RiskProfile = (\<lambda>row. True),
      accepts_RiskFactor = (\<lambda>row. True),
      accepts_RiskConditional = (\<lambda>row. True),
      accepts_AssumptionProfile = (\<lambda>row. True),
      RiskFactor_lookup = (\<lambda>k s. if k = ''attribute''
                                   then Inr (\<lambda>row. rf_attribute (snd row) = JStr s)
                                   else Inl StorageError)\<rparr>"

definition empty_store :: store where
  "empty_store = \<lparr>risk_profiles = [], risk_factors = [], risk_conditionals = [],
                  assumption_profiles = []\<rparr>"

definition timber_shortage :: json where
  "timber_shortage =
     JObj [(''name'', JStr ''3 Month Timber Shortage''),
           (''gdp_growth'', JFloat (Finite 3.25)),
           (''unemployment_rate'', JFloat (Finite 8.5)),
           (''national_home_price_index'', JFloat (Finite 3.75)),
           (''high_yield_spread'', JFloat (Finite 5.25)),
           (''constant_default_rate'', JInt (- 100)),
           (''constant_prepayment_rate'', JInt (- 100)),
           (''recovery'', JInt (- 100)),
           (''lag'', JInt 128)]"

definition gdp_growing :: json where
  "gdp_growing =
     JObj [(''name'', JStr ''GDP Growing at 3%''),
           (''gdp_growth'', JStr ''about four''),
           (''unemployment_rate'', JFloat (Finite 8.5)),
           (''national_home_price_index'', JNull),
           (''high_yield_spread'', JFloat (Finite 8.25)),
           (''constant_default_rate'', JFloat (Finite 10.75)),
           (''constant_prepayment_rate'', JFloat (Finite 17.25)),
           (''recovery'', JFloat (Finite (- 89.25))),
           (''lag'', JInt 107)]"

definition lag_at_sentinel :: json where
  "lag_at_sentinel =
     JObj [(''name'', JStr ''U.S. Economy Growing 3%''),
           (''gdp_growth'', JFloat (Finite 3.25)),
           (''unemployment_rate'', JFloat (Finite 8.5)),
           (''national_home_price_index'', JFloat (Finite 3.75)),
           (''high_yield_spread'', JFloat (Finite 5.25)),
           (''constant_default_rate'', JInt (- 100)),
           (''constant_prepayment_rate'', JInt 21),
           (''recovery'', JInt (- 100)),
           (''lag'', JInt (- 100))]"

definition one_profile :: store where
  "one_profile = \<lparr>risk_profiles = [(2, \<lparr>rp_name = JStr ''FICO Scores Above 500''\<rparr>)],
                  risk_factors = [], risk_conditionals = [], assumption_profiles = []\<rparr>"

definition fico_factor :: json where
  "fico_factor =
     JObj [(''risk_profile_id'', JInt 2),
           (''risk_factor_attribute'', JStr ''FICO''),
           (''changing_assumption'', JStr ''CDR''),
           (''percentage_change'', JInt (- 5)),
           (''conditionals_list'',
              JList [JObj [(''conditional'', JStr ''>''), (''value'', JInt 450)],
                     JObj [(''conditional'', JStr ''<''), (''value'', JInt 550)]])]"

definition missing_value :: json where
  "missing_value =
     JObj [(''risk_profile_id'', JInt 2),
           (''risk_factor_attribute'', JStr ''state''),
           (''changing_assumption'', JStr ''recovery''),
           (''percentage_change'', JInt 2),
           (''conditionals_list'',
              JList [JObj [(''conditional'', JStr ''>''), (''value'', JInt 450)],
                     JObj [(''conditional'', JStr ''<'')],
                     JObj [(''conditional'', JStr ''<=''), (''value'', JInt 700)]])]"

definition unlisted_operator :: json where
  "unlisted_operator =
     JObj [(''risk_profile_id'', JInt 2),
           (''risk_factor_attribute'', JStr ''FICO''),
           (''changing_assumption'', JStr ''CDR''),
           (''percentage_change'', JInt (- 5)),
           (''conditionals_list'',
              JList [JObj [(''conditional'', JStr ''!=''), (''value'', JInt 450)]])]"

definition no_profile_id :: json where
  "no_profile_id =
     JObj [(''risk_factor_attribute'', JStr ''FICO''),
           (''changing_assumption'', JStr ''CDR''),
           (''percentage_change'', JInt (- 5)),
           (''conditionals_list'', JList [])]"

definition three_factors :: store where
  "three_factors =
     \<lparr>risk_profiles = [(2, \<lparr>rp_name = JStr ''FICO Scores Above 500''\<rparr>),
                       (4, \<lparr>rp_name = JStr ''Current Interest Rate Above 6%''\<rparr>)],
      risk_factors =
        [(1, \<lparr>rf_risk_profile_id = 2, rf_attribute = JStr ''FICO'',
              rf_changing_assumption = JStr ''CDR'', rf_percentage_change = JInt (- 5)\<rparr>),
         (2, \<lparr>rf_risk_profile_id = 2, rf_attribute = JStr ''state'',
              rf_changing_assumption = JStr ''recovery'', rf_percentage_change = JInt 2\<rparr>),
         (3, \<lparr>rf_risk_profile_id = 4, rf_attribute = JStr ''FICO'',
              rf_changing_assumption = JStr ''CPR'', rf_percentage_change = JInt 1\<rparr>)],
      risk_conditionals = [], assumption_profiles = []\<rparr>"

definition huge_unemployment :: json where
  "huge_unemployment =
     JObj [(''name'', JStr ''Everyone out of work''),
           (''gdp_growth'', JInt 3),
           (''unemployment_rate'', JInt (10 ^ 309)),
           (''national_home_price_index'', JInt 4),
           (''high_yield_spread'', JInt 5),
           (''constant_default_rate'', JInt (- 100)),
           (''constant_prepayment_rate'', JInt 21),
           (''recovery'', JInt 59),
           (''lag'', JInt 128)]"

section \<open>Properties of the numbers\<close>

lemma bind_err_simps [simp]: "bind_err (Inl e) f = Inl e" "bind_err (Inr x) f = f x"
  by (simp_all add: bind_err_def)

lemma bind_err_Inr: "bind_err m f = Inr y \<longleftrightarrow> (\<exists>x. m = Inr x \<and> f x = Inr y)"
  by (cases m) simp_all

lemma round_half_even_of_int [simp]: "round_half_even (of_int n) = n"
  by (simp add: round_half_even_def)

text \<open>A number with at most 53 significant bits and no bit below \<open>2 powr -1074\<close> is a double.\<close>

lemma nearest_double_exact:
  assumes "x = of_int m / 2 ^ j" and "\<bar>m\<bar> < 2 ^ 53" and "j \<le> 1074"
  shows "nearest_double x = x"
proof (cases "m = 0")
  case True
  with assms show ?thesis by (simp add: nearest_double_def)
next
  case False
  define e where "e = max \<lfloor>log 2 \<bar>x\<bar>\<rfloor> (- 1022)"
  from False assms have x: "x \<noteq> 0" "0 < \<bar>x\<bar>" by auto
  from assms(2) have "real_of_int \<bar>m\<bar> < 2 ^ 53"
    by (metis of_int_less_numeral_power_cancel_iff)
  then have "\<bar>x\<bar> < 2 ^ 53 / 2 ^ j"
    by (simp add: assms(1) divide_strict_right_mono)
  also have "\<dots> = 2 powr (53 - real j)"
    by (simp add: powr_diff powr_realpow)
  finally have "log 2 \<bar>x\<bar> < 53 - real j"
    using x by (simp add: log_less_iff)
  then have "\<lfloor>log 2 \<bar>x\<bar>\<rfloor> < 53 - int j"
    by (simp add: floor_less_iff)
  with assms(3) have e: "e \<le> 52 - int j"
    by (simp add: e_def)
  define t where "t = nat (52 - int j - e)"
  from e have t: "e - 52 = - int (j + t)"
    by (simp add: t_def)
  have ulp: "2 powr of_int (e - 52) = 1 / (2 ^ j * 2 ^ t :: real)"
    unfolding t by (simp add: powr_minus powr_realpow power_add divide_simps flip: of_nat_add)
  have q: "x / (2 powr of_int (e - 52)) = of_int (m * 2 ^ t)"
    unfolding ulp by (simp add: assms(1))
  from x have "nearest_double x =
      of_int (round_half_even (x / 2 powr of_int (e - 52))) * 2 powr of_int (e - 52)"
    by (simp only: nearest_double_def Let_def e_def if_False)
  also have "\<dots> = of_int (m * 2 ^ t) * 2 powr of_int (e - 52)"
    by (simp only: q round_half_even_of_int)
  also have "\<dots> = x"
    unfolding ulp by (simp add: assms(1))
  finally show ?thesis .
qed

lemma double_round_exact:
  assumes "x = of_int m / 2 ^ j" and "\<bar>m\<bar> < 2 ^ 53" and "j \<le> 1074"
  shows "double_round x = Finite x"
proof -
  have "\<bar>x\<bar> = real_of_int \<bar>m\<bar> / 2 ^ j"
    by (simp add: assms(1))
  also have "\<dots> \<le> real_of_int \<bar>m\<bar> / 1"
    by (intro divide_left_mono) simp_all
  also from assms(2) have "real_of_int \<bar>m\<bar> / 1 < 2 ^ 53"
    by (simp only: div_by_1) (metis of_int_less_numeral_power_cancel_iff)
  also have "(2::real) ^ 53 \<le> 2 ^ 1024 - 2 ^ 970"
    by simp
  finally have "\<not> 2 ^ 1024 - 2 ^ 970 \<le> \<bar>x\<bar>"
    by (simp only: not_le)
  then show ?thesis
    by (simp only: double_round_def if_False nearest_double_exact [OF assms])
qed

lemma double_round_int:
  assumes "\<bar>n\<bar> < 2 ^ 53"
  shows "double_round (of_int n) = Finite (of_int n)"
  by (rule double_round_exact [where m = n and j = 0]) (use assms in simp_all)

lemma float_of_int_small: "\<bar>n\<bar> < 2 ^ 53 \<Longrightarrow> float_of_int n = Inr (Finite (of_int n))"
  by (simp add: float_of_int_def double_round_int)

lemma double_round_in_range:
  "\<bar>x\<bar> < 2 ^ 1024 - 2 ^ 970 \<Longrightarrow> double_round x = Finite (nearest_double x)"
  by (simp add: double_round_def)

lemma double_round_beyond:
  "2 ^ 1024 - 2 ^ 970 \<le> x \<Longrightarrow> double_round x = PosInf"
  by (simp add: double_round_def)

lemma float_of_int_beyond:
  assumes "2 ^ 1024 - 2 ^ 970 \<le> n"
  shows "float_of_int n = Inl OverflowError"
proof -
  from assms have "real_of_int (2 ^ 1024 - 2 ^ 970) \<le> real_of_int n"
    by (simp only: of_int_le_iff)
  then have "double_round (of_int n) = PosInf"
    by (intro double_round_beyond) simp
  then show ?thesis
    by (simp add: float_of_int_def)
qed

text \<open>With a float operand and a small int literal, an operation cannot raise.\<close>

lemma num_mul_float_int:
  "\<bar>n\<bar> < 2 ^ 53 \<Longrightarrow> num_mul (PFloat x) (PInt n) = Inr (PFloat (float_mul x (Finite (of_int n))))"
  by (simp add: num_mul_def to_float_def float_of_int_small)

lemma num_add_float_int:
  "\<bar>n\<bar> < 2 ^ 53 \<Longrightarrow> num_add (PFloat x) (PInt n) = Inr (PFloat (float_add x (Finite (of_int n))))"
  by (simp add: num_add_def to_float_def float_of_int_small)

lemma num_truediv_float_int:
  "\<bar>n\<bar> < 2 ^ 53 \<Longrightarrow> n \<noteq> 0 \<Longrightarrow>
     num_truediv (PFloat x) (PInt n) = Inr (PFloat (float_div x (Finite (of_int n))))"
  by (simp add: num_truediv_def to_float_def float_of_int_small)

lemma num_float_float:
  "num_mul (PFloat x) (PFloat y) = Inr (PFloat (float_mul x y))"
  "num_add (PFloat x) (PFloat y) = Inr (PFloat (float_add x y))"
  "num_sub (PFloat x) (PFloat y) = Inr (PFloat (float_sub x y))"
  by (simp_all add: num_mul_def num_add_def num_sub_def to_float_def)

lemma num_truediv_245_9:
  "num_truediv (PInt 245) (PInt 9) = Inr (PFloat (double_round (245 / 9)))"
proof -
  have "\<bar>245 / 9 :: real\<bar> < 2 ^ 1024 - 2 ^ 970"
    by simp
  then have "double_round (245 / 9) = Finite (nearest_double (245 / 9))"
    by (rule double_round_in_range)
  then show ?thesis
    by (simp add: num_truediv_def)
qed

lemma compute_cdr_floats:
  "compute_cdr (JFloat g) (JFloat u) =
     Inr (JFloat (float_add (float_add (float_mul g (Finite (- 1))) (Finite 6.5))
                            (float_sub (float_mul u (double_round 1.2)) (Finite 5.5))))"
  using num_mul_float_int [of "- 1" g]
  by (simp add: compute_cdr_def py_number_def num_float_float json_of_num_def)

lemma compute_cpr_floats:
  "compute_cpr (JFloat y) =
     Inr (JFloat (float_add (float_div (float_mul y (Finite (- 10))) (Finite 9))
                            (double_round (245 / 9))))"
  using num_mul_float_int [of "- 10" y] num_truediv_float_int [of 9]
  by (simp add: compute_cpr_def py_number_def num_float_float num_truediv_245_9 json_of_num_def)

lemma compute_recovery_floats:
  "compute_recovery (JFloat h) =
     Inr (JFloat (float_add (float_mul h (Finite 2.5)) (Finite 50)))"
  using num_add_float_int [of 50]
  by (simp add: compute_recovery_def py_number_def num_float_float json_of_num_def)

section \<open>Properties of AssumptionProfileAPI.post\<close>

lemma assumption_loop_four:
  "assumption_loop g u h y
     [(''constant_default_rate'', c), (''constant_prepayment_rate'', p), (''recovery'', r), (''lag'', l)] p0 =
   bind_err (if py_ne c (- 100) then Inr c else compute_cdr g u) (\<lambda>cdr.
   bind_err (if py_ne p (- 100) then Inr p else compute_cpr y) (\<lambda>cpr.
   bind_err (if py_ne r (- 100) then Inr r else compute_recovery h) (\<lambda>recovery.
   Inr (p0\<lparr>ap_constant_default_rate := Some cdr, ap_constant_prepayment_rate := Some cpr,
           ap_recovery := Some recovery, ap_lag := Some l\<rparr>))))"
  by (cases "compute_cdr g u"; cases "compute_cpr y"; cases "compute_recovery h")
     (simp_all add: assumption_step_def setattr_def Let_def)

lemma resolveAssumptionProfile_Inr:
  assumes "resolveAssumptionProfile body = Inr row"
  shows "\<exists>n g u h y c p r l cdr cpr recovery.
           py_getitem body ''name'' = Inr n \<and>
           py_getitem body ''gdp_growth'' = Inr g \<and>
           py_getitem body ''unemployment_rate'' = Inr u \<and>
           py_getitem body ''national_home_price_index'' = Inr h \<and>
           py_getitem body ''high_yield_spread'' = Inr y \<and>
           py_getitem body ''constant_default_rate'' = Inr c \<and>
           py_getitem body ''constant_prepayment_rate'' = Inr p \<and>
           py_getitem body ''recovery'' = Inr r \<and>
           py_getitem body ''lag'' = Inr l \<and>
           (if py_ne c (- 100) then Inr c else compute_cdr g u) = Inr cdr \<and>
           (if py_ne p (- 100) then Inr p else compute_cpr y) = Inr cpr \<and>
           (if py_ne r (- 100) then Inr r else compute_recovery h) = Inr recovery \<and>
           row = \<lparr>ap_name = n, ap_gdp_growth = g, ap_unemployment_rate = u,
                  ap_national_home_price_index_growth = h, ap_high_yield_spread = y,
                  ap_constant_default_rate = Some cdr, ap_constant_prepayment_rate = Some cpr,
                  ap_recovery = Some recovery, ap_lag = Some l\<rparr>"
  using assms unfolding resolveAssumptionProfile_def Let_def assumption_loop_four bind_err_Inr
  by (elim exE conjE) (simp cong: if_cong)

lemma AssumptionProfileAPI_post_Inr:
  "AssumptionProfileAPI_post db body st = (Inr resp, st') \<longleftrightarrow>
     (\<exists>row. resolveAssumptionProfile body = Inr row \<and> accepts_AssumptionProfile db row \<and>
            resp = status_message ''OK'' ''Assumption Profile Created!!'' \<and>
            st' = st\<lparr>assumption_profiles :=
                       assumption_profiles st @ [(fresh_pk (assumption_profiles st), row)]\<rparr>)"
  by (auto simp: AssumptionProfileAPI_post_def AssumptionProfile_save_def split: sum.splits)

lemma resolveAssumptionProfile_present:
  assumes "py_getitem body ''name'' = Inr n"
    and "py_getitem body ''gdp_growth'' = Inr g"
    and "py_getitem body ''unemployment_rate'' = Inr u"
    and "py_getitem body ''national_home_price_index'' = Inr h"
    and "py_getitem body ''high_yield_spread'' = Inr y"
    and "py_getitem body ''constant_default_rate'' = Inr c"
    and "py_getitem body ''constant_prepayment_rate'' = Inr p"
    and "py_getitem body ''recovery'' = Inr r"
    and "py_getitem body ''lag'' = Inr l"
  shows "resolveAssumptionProfile body =
           bind_err (if py_ne c (- 100) then Inr c else compute_cdr g u) (\<lambda>cdr.
           bind_err (if py_ne p (- 100) then Inr p else compute_cpr y) (\<lambda>cpr.
           bind_err (if py_ne r (- 100) then Inr r else compute_recovery h) (\<lambda>recovery.
           Inr \<lparr>ap_name = n, ap_gdp_growth = g, ap_unemployment_rate = u,
                ap_national_home_price_index_growth = h, ap_high_yield_spread = y,
                ap_constant_default_rate = Some cdr, ap_constant_prepayment_rate = Some cpr,
                ap_recovery = Some recovery, ap_lag = Some l\<rparr>)))"
  unfolding resolveAssumptionProfile_def Let_def assumption_loop_four
  by (simp add: assms cong: if_cong)

lemma compute_cdr_Inr:
  assumes "compute_cdr g u = Inr v"
  shows "\<exists>gn un a cdr b d s.
           py_number g = Some gn \<and> py_number u = Some un \<and>
           num_mul gn (PInt (- 1)) = Inr a \<and>
           num_add a (PFloat (Finite 6.5)) = Inr cdr \<and>
           num_mul un (PFloat (double_round 1.2)) = Inr b \<and>
           num_sub b (PFloat (Finite 5.5)) = Inr d \<and>
           num_add cdr d = Inr s \<and>
           v = json_of_num s"
  using assms
  by (auto simp: compute_cdr_def bind_err_Inr split: option.splits)

lemma compute_cpr_Inr:
  assumes "compute_cpr y = Inr v"
  shows "\<exists>yn a b k s.
           py_number y = Some yn \<and>
           num_mul yn (PInt (- 10)) = Inr a \<and>
           num_truediv a (PInt 9) = Inr b \<and>
           num_truediv (PInt 245) (PInt 9) = Inr k \<and>
           num_add b k = Inr s \<and>
           v = json_of_num s"
  using assms
  by (auto simp: compute_cpr_def bind_err_Inr split: option.splits)

lemma compute_recovery_Inr:
  assumes "compute_recovery h = Inr v"
  shows "\<exists>hn a s.
           py_number h = Some hn \<and>
           num_mul hn (PFloat (Finite 2.5)) = Inr a \<and>
           num_add a (PInt 50) = Inr s \<and>
           v = json_of_num s"
  using assms
  by (auto simp: compute_recovery_def bind_err_Inr split: option.splits)

lemma resolveAssumptionProfile_floats:
  assumes "py_getitem body ''name'' = Inr n"
    and "py_getitem body ''gdp_growth'' = Inr (JFloat gf)"
    and "py_getitem body ''unemployment_rate'' = Inr (JFloat uf)"
    and "py_getitem body ''national_home_price_index'' = Inr (JFloat hf)"
    and "py_getitem body ''high_yield_spread'' = Inr (JFloat yf)"
    and "py_getitem body ''constant_default_rate'' = Inr c"
    and "py_getitem body ''constant_prepayment_rate'' = Inr p"
    and "py_getitem body ''recovery'' = Inr r"
    and "py_getitem body ''lag'' = Inr l"
  shows "resolveAssumptionProfile body =
           Inr \<lparr>ap_name = n, ap_gdp_growth = JFloat gf, ap_unemployment_rate = JFloat uf,
                ap_national_home_price_index_growth = JFloat hf, ap_high_yield_spread = JFloat yf,
                ap_constant_default_rate =
                  Some (if py_ne c (- 100) then c
                        else JFloat (float_add (float_add (float_mul gf (Finite (- 1))) (Finite 6.5))
                               (float_sub (float_mul uf (double_round 1.2)) (Finite 5.5)))),
                ap_constant_prepayment_rate =
                  Some (if py_ne p (- 100) then p
                        else JFloat (float_add (float_div (float_mul yf (Finite (- 10))) (Finite 9))
                               (double_round (245 / 9)))),
                ap_recovery =
                  Some (if py_ne r (- 100) then r
                        else JFloat (float_add (float_mul hf (Finite 2.5)) (Finite 50))),
                ap_lag = Some l\<rparr>"
  unfolding resolveAssumptionProfile_present [OF assms]
  by (simp add: compute_cdr_floats compute_cpr_floats compute_recovery_floats)

lemma py_ne_sentinel:
  "py_ne v (- 100) \<longleftrightarrow> v \<noteq> JInt (- 100) \<and> v \<noteq> JFloat (Finite (- 100))"
proof (cases v)
  case (JFloat x)
  then show ?thesis
    by (cases x) (auto simp: py_ne_def py_number_def)
qed (auto simp: py_ne_def py_number_def)

text \<open>
  Claim C1 says that the value of the formula is stored for every tuple of macro inputs.
  The formulas run in Python's int and float arithmetic: with the JSON integer \<open>10 ^ 309\<close>
  as unemployment rate, \<^verbatim>\<open>unemployment_rate * 1.2\<close> has to convert that int to a float,
  which raises OverflowError, and no assumption profile is stored.
\<close>

theorem computed_default_overflows:
  "AssumptionProfileAPI_post lenient_orm huge_unemployment empty_store =
     (Inl OverflowError, empty_store)"
proof -
  have "compute_cdr (JInt 3) (JInt (10 ^ 309)) = Inl OverflowError"
    by (simp add: compute_cdr_def py_number_def num_mul_def num_add_def to_float_def
          float_of_int_small float_of_int_beyond)
  then have "resolveAssumptionProfile huge_unemployment = Inl OverflowError"
    by (subst resolveAssumptionProfile_present
          [where n = "JStr ''Everyone out of work''" and g = "JInt 3" and u = "JInt (10 ^ 309)"
             and h = "JInt 4" and y = "JInt 5" and c = "JInt (- 100)" and p = "JInt 21"
             and r = "JInt 59" and l = "JInt 128"])
       (simp_all add: huge_unemployment_def py_getitem_def py_ne_sentinel)
  then show ?thesis
    by (simp add: AssumptionProfileAPI_post_def)
qed

text \<open>
  Claim C1, amended. Let the request hold the nine fields. On every run that creates the
  profile, a default rate supplied as -100 is stored as the value Python's arithmetic gives
  for \<^verbatim>\<open>(gdp_growth * -1 + 6.5) + (unemployment_rate * 1.2 - 5.5)\<close>, operation by
  operation; a prepayment rate supplied as -100 as the value of
  \<^verbatim>\<open>high_yield_spread * -10/9 + 245/9\<close>; a recovery supplied as -100 as the value of
  \<^verbatim>\<open>national_home_price_index * 2.5 + 50\<close>. Each value is a function of the macro
  inputs of its own formula alone. When the four macro inputs are floats, no formula can
  raise: the view builds the row whatever the other five inputs are, saves it if the store
  takes it, and the three values are the float expressions, each operation rounded to the
  nearest double.
\<close>

theorem computed_defaults_follow_formulas:
  assumes "py_getitem body ''name'' = Inr n"
    and "py_getitem body ''gdp_growth'' = Inr g"
    and "py_getitem body ''unemployment_rate'' = Inr u"
    and "py_getitem body ''national_home_price_index'' = Inr h"
    and "py_getitem body ''high_yield_spread'' = Inr y"
    and "py_getitem body ''constant_default_rate'' = Inr c"
    and "py_getitem body ''constant_prepayment_rate'' = Inr p"
    and "py_getitem body ''recovery'' = Inr r"
    and "py_getitem body ''lag'' = Inr l"
  shows
    "(\<forall>resp st'.
        AssumptionProfileAPI_post db body st = (Inr resp, st') \<longrightarrow>
        (\<exists>row.
           st' = st\<lparr>assumption_profiles :=
                      assumption_profiles st @ [(fresh_pk (assumption_profiles st), row)]\<rparr> \<and>
           (c = JInt (- 100) \<or> c = JFloat (Finite (- 100)) \<longrightarrow>
              (\<exists>gn un a cdr b d s.
                 py_number g = Some gn \<and> py_number u = Some un \<and>
                 num_mul gn (PInt (- 1)) = Inr a \<and>
                 num_add a (PFloat (Finite 6.5)) = Inr cdr \<and>
                 num_mul un (PFloat (double_round 1.2)) = Inr b \<and>
                 num_sub b (PFloat (Finite 5.5)) = Inr d \<and>
                 num_add cdr d = Inr s \<and>
                 ap_constant_default_rate row = Some (json_of_num s))) \<and>
           (p = JInt (- 100) \<or> p = JFloat (Finite (- 100)) \<longrightarrow>
              (\<exists>yn a b k s.
                 py_number y = Some yn \<and>
                 num_mul yn (PInt (- 10)) = Inr a \<and>
                 num_truediv a (PInt 9) = Inr b \<and>
                 num_truediv (PInt 245) (PInt 9) = Inr k \<and>
                 num_add b k = Inr s \<and>
                 ap_constant_prepayment_rate row = Some (json_of_num s))) \<and>
           (r = JInt (- 100) \<or> r = JFloat (Finite (- 100)) \<longrightarrow>
              (\<exists>hn a s.
                 py_number h = Some hn \<and>
                 num_mul hn (PFloat (Finite 2.5)) = Inr a \<and>
                 num_add a (PInt 50) = Inr s \<and>
                 ap_recovery row = Some (json_of_num s))))) \<and>
     (\<forall>gf uf hf yf.
        g = JFloat gf \<and> u = JFloat uf \<and> h = JFloat hf \<and> y = JFloat yf \<longrightarrow>
        (\<exists>row.
           resolveAssumptionProfile body = Inr row \<and>
           (accepts_AssumptionProfile db row \<longrightarrow>
              AssumptionProfileAPI_post db body st =
                (Inr (status_message ''OK'' ''Assumption Profile Created!!''),
                 st\<lparr>assumption_profiles :=
                      assumption_profiles st @ [(fresh_pk (assumption_profiles st), row)]\<rparr>)) \<and>
           (c = JInt (- 100) \<or> c = JFloat (Finite (- 100)) \<longrightarrow>
              ap_constant_default_rate row =
                Some (JFloat (float_add (float_add (float_mul gf (Finite (- 1))) (Finite 6.5))
                                        (float_sub (float_mul uf (double_round 1.2)) (Finite 5.5))))) \<and>
           (p = JInt (- 100) \<or> p = JFloat (Finite (- 100)) \<longrightarrow>
              ap_constant_prepayment_rate row =
                Some (JFloat (float_add (float_div (float_mul yf (Finite (- 10))) (Finite 9))
                                        (double_round (245 / 9))))) \<and>
           (r = JInt (- 100) \<or> r = JFloat (Finite (- 100)) \<longrightarrow>
              ap_recovery row =
                Some (JFloat (float_add (float_mul hf (Finite 2.5)) (Finite 50))))))"
proof (intro conjI allI impI)
  fix resp st'
  assume "AssumptionProfileAPI_post db body st = (Inr resp, st')"
  then obtain row where
    row: "resolveAssumptionProfile body = Inr row"
    and st': "st' = st\<lparr>assumption_profiles :=
                        assumption_profiles st @ [(fresh_pk (assumption_profiles st), row)]\<rparr>"
    by (auto simp: AssumptionProfileAPI_post_Inr)
  from row obtain cdr cpr recovery where
    cdr: "(if py_ne c (- 100) then Inr c else compute_cdr g u) = Inr cdr"
    and cpr: "(if py_ne p (- 100) then Inr p else compute_cpr y) = Inr cpr"
    and recovery: "(if py_ne r (- 100) then Inr r else compute_recovery h) = Inr recovery"
    and fields: "ap_constant_default_rate row = Some cdr"
      "ap_constant_prepayment_rate row = Some cpr" "ap_recovery row = Some recovery"
    unfolding resolveAssumptionProfile_present [OF assms] bind_err_Inr by auto
  have "\<exists>gn un a cdr' b d s.
          py_number g = Some gn \<and> py_number u = Some un \<and>
          num_mul gn (PInt (- 1)) = Inr a \<and>
          num_add a (PFloat (Finite 6.5)) = Inr cdr' \<and>
          num_mul un (PFloat (double_round 1.2)) = Inr b \<and>
          num_sub b (PFloat (Finite 5.5)) = Inr d \<and>
          num_add cdr' d = Inr s \<and>
          ap_constant_default_rate row = Some (json_of_num s)"
    if "c = JInt (- 100) \<or> c = JFloat (Finite (- 100))"
  proof -
    from that cdr have "compute_cdr g u = Inr cdr"
      by (auto simp: py_ne_sentinel)
    from compute_cdr_Inr [OF this] fields(1) show ?thesis
      by auto
  qed
  moreover have "\<exists>yn a b k s.
          py_number y = Some yn \<and>
          num_mul yn (PInt (- 10)) = Inr a \<and>
          num_truediv a (PInt 9) = Inr b \<and>
          num_truediv (PInt 245) (PInt 9) = Inr k \<and>
          num_add b k = Inr s \<and>
          ap_constant_prepayment_rate row = Some (json_of_num s)"
    if "p = JInt (- 100) \<or> p = JFloat (Finite (- 100))"
  proof -
    from that cpr have "compute_cpr y = Inr cpr"
      by (auto simp: py_ne_sentinel)
    from compute_cpr_Inr [OF this] fields(2) show ?thesis
      by auto
  qed
  moreover have "\<exists>hn a s.
          py_number h = Some hn \<and>
          num_mul hn (PFloat (Finite 2.5)) = Inr a \<and>
          num_add a (PInt 50) = Inr s \<and>
          ap_recovery row = Some (json_of_num s)"
    if "r = JInt (- 100) \<or> r = JFloat (Finite (- 100))"
  proof -
    from that recovery have "compute_recovery h = Inr recovery"
      by (auto simp: py_ne_sentinel)
    from compute_recovery_Inr [OF this] fields(3) show ?thesis
      by auto
  qed
  ultimately show "\<exists>row.
      st' = st\<lparr>assumption_profiles :=
                 assumption_profiles st @ [(fresh_pk (assumption_profiles st), row)]\<rparr> \<and>
      (c = JInt (- 100) \<or> c = JFloat (Finite (- 100)) \<longrightarrow>
         (\<exists>gn un a cdr b d s.
            py_number g = Some gn \<and> py_number u = Some un \<and>
            num_mul gn (PInt (- 1)) = Inr a \<and>
            num_add a (PFloat (Finite 6.5)) = Inr cdr \<and>
            num_mul un (PFloat (double_round 1.2)) = Inr b \<and>
            num_sub b (PFloat (Finite 5.5)) = Inr d \<and>
            num_add cdr d = Inr s \<and>
            ap_constant_default_rate row = Some (json_of_num s))) \<and>
      (p = JInt (- 100) \<or> p = JFloat (Finite (- 100)) \<longrightarrow>
         (\<exists>yn a b k s.
            py_number y = Some yn \<and>
            num_mul yn (PInt (- 10)) = Inr a \<and>
            num_truediv a (PInt 9) = Inr b \<and>
            num_truediv (PInt 245) (PInt 9) = Inr k \<and>
            num_add b k = Inr s \<and>
            ap_constant_prepayment_rate row = Some (json_of_num s))) \<and>
      (r = JInt (- 100) \<or> r = JFloat (Finite (- 100)) \<longrightarrow>
         (\<exists>hn a s.
            py_number h = Some hn \<and>
            num_mul hn (PFloat (Finite 2.5)) = Inr a \<and>
            num_add a (PInt 50) = Inr s \<and>
            ap_recovery row = Some (json_of_num s)))"
    using st' by (intro exI [of _ row]) blast
next
  fix gf uf hf yf
  assume floats: "g = JFloat gf \<and> u = JFloat uf \<and> h = JFloat hf \<and> y = JFloat yf"
  let ?cdr = "JFloat (float_add (float_add (float_mul gf (Finite (- 1))) (Finite 6.5))
                                (float_sub (float_mul uf (double_round 1.2)) (Finite 5.5)))"
  let ?cpr = "JFloat (float_add (float_div (float_mul yf (Finite (- 10))) (Finite 9))
                                (double_round (245 / 9)))"
  let ?recovery = "JFloat (float_add (float_mul hf (Finite 2.5)) (Finite 50))"
  let ?row = "\<lparr>ap_name = n, ap_gdp_growth = JFloat gf, ap_unemployment_rate = JFloat uf,
               ap_national_home_price_index_growth = JFloat hf, ap_high_yield_spread = JFloat yf,
               ap_constant_default_rate = Some (if py_ne c (- 100) then c else ?cdr),
               ap_constant_prepayment_rate = Some (if py_ne p (- 100) then p else ?cpr),
               ap_recovery = Some (if py_ne r (- 100) then r else ?recovery),
               ap_lag = Some l\<rparr>"
  from floats assms have row: "resolveAssumptionProfile body = Inr ?row"
    by (intro resolveAssumptionProfile_floats) simp_all
  then show "\<exists>row.
      resolveAssumptionProfile body = Inr row \<and>
      (accepts_AssumptionProfile db row \<longrightarrow>
         AssumptionProfileAPI_post db body st =
           (Inr (status_message ''OK'' ''Assumption Profile Created!!''),
            st\<lparr>assumption_profiles :=
                 assumption_profiles st @ [(fresh_pk (assumption_profiles st), row)]\<rparr>)) \<and>
      (c = JInt (- 100) \<or> c = JFloat (Finite (- 100)) \<longrightarrow>
         ap_constant_default_rate row = Some ?cdr) \<and>
      (p = JInt (- 100) \<or> p = JFloat (Finite (- 100)) \<longrightarrow>
         ap_constant_prepayment_rate row = Some ?cpr) \<and>
      (r = JInt (- 100) \<or> r = JFloat (Finite (- 100)) \<longrightarrow>
         ap_recovery row = Some ?recovery)"
    by (intro exI [of _ ?row])
       (auto simp: AssumptionProfileAPI_post_def AssumptionProfile_save_def py_ne_sentinel)
qed

theorem computed_defaults_follow_formulas_witness:
  "\<exists>row. AssumptionProfileAPI_post lenient_orm timber_shortage empty_store =
            (Inr (status_message ''OK'' ''Assumption Profile Created!!''),
             empty_store\<lparr>assumption_profiles := [(1, row)]\<rparr>) \<and>
         ap_constant_default_rate row =
           Some (JFloat (float_add (Finite 3.25)
                   (float_sub (float_mul (Finite 8.5) (double_round 1.2)) (Finite 5.5)))) \<and>
         ap_constant_prepayment_rate row =
           Some (JFloat (float_add (double_round (- 52.5 / 9)) (double_round (245 / 9)))) \<and>
         ap_recovery row = Some (JFloat (Finite 59.375))"
proof -
  have fields:
    "py_getitem timber_shortage ''name'' = Inr (JStr ''3 Month Timber Shortage'')"
    "py_getitem timber_shortage ''gdp_growth'' = Inr (JFloat (Finite 3.25))"
    "py_getitem timber_shortage ''unemployment_rate'' = Inr (JFloat (Finite 8.5))"
    "py_getitem timber_shortage ''national_home_price_index'' = Inr (JFloat (Finite 3.75))"
    "py_getitem timber_shortage ''high_yield_spread'' = Inr (JFloat (Finite 5.25))"
    "py_getitem timber_shortage ''constant_default_rate'' = Inr (JInt (- 100))"
    "py_getitem timber_shortage ''constant_prepayment_rate'' = Inr (JInt (- 100))"
    "py_getitem timber_shortage ''recovery'' = Inr (JInt (- 100))"
    "py_getitem timber_shortage ''lag'' = Inr (JInt 128)"
    by (simp_all add: timber_shortage_def py_getitem_def)
  from computed_defaults_follow_formulas [OF fields, of lenient_orm empty_store]
  obtain row where
    run: "accepts_AssumptionProfile lenient_orm row \<longrightarrow>
       AssumptionProfileAPI_post lenient_orm timber_shortage empty_store =
         (Inr (status_message ''OK'' ''Assumption Profile Created!!''),
          empty_store\<lparr>assumption_profiles :=
            assumption_profiles empty_store @ [(fresh_pk (assumption_profiles empty_store), row)]\<rparr>)"
    and cdr: "ap_constant_default_rate row =
       Some (JFloat (float_add (float_add (float_mul (Finite 3.25) (Finite (- 1))) (Finite 6.5))
                               (float_sub (float_mul (Finite 8.5) (double_round 1.2)) (Finite 5.5))))"
    and cpr: "ap_constant_prepayment_rate row =
       Some (JFloat (float_add (float_div (float_mul (Finite 5.25) (Finite (- 10))) (Finite 9))
                               (double_round (245 / 9))))"
    and recovery: "ap_recovery row =
       Some (JFloat (float_add (float_mul (Finite 3.75) (Finite 2.5)) (Finite 50)))"
    by blast
  have "float_mul (Finite 3.25) (Finite (- 1)) = Finite (- 3.25)"
    using double_round_exact [where x = "- 3.25" and m = "- 13" and j = 2] by simp
  moreover have "float_add (Finite (- 3.25)) (Finite 6.5) = Finite 3.25"
    using double_round_exact [where x = "3.25" and m = 13 and j = 2] by simp
  ultimately have cdr': "ap_constant_default_rate row =
       Some (JFloat (float_add (Finite 3.25)
               (float_sub (float_mul (Finite 8.5) (double_round 1.2)) (Finite 5.5))))"
    using cdr by (simp only:)
  have "float_mul (Finite 5.25) (Finite (- 10)) = Finite (- 52.5)"
    using double_round_exact [where x = "- 52.5" and m = "- 105" and j = 1] by simp
  moreover have "float_div (Finite (- 52.5)) (Finite 9) = double_round (- 52.5 / 9)"
    by simp
  ultimately have cpr': "ap_constant_prepayment_rate row =
       Some (JFloat (float_add (double_round (- 52.5 / 9)) (double_round (245 / 9))))"
    using cpr by (simp only:)
  have "float_mul (Finite 3.75) (Finite 2.5) = Finite 9.375"
    using double_round_exact [where x = "9.375" and m = 75 and j = 3] by simp
  moreover have "float_add (Finite 9.375) (Finite 50) = Finite 59.375"
    using double_round_exact [where x = "59.375" and m = 475 and j = 3] by simp
  ultimately have recovery': "ap_recovery row = Some (JFloat (Finite 59.375))"
    using recovery by (simp only:)
  from run have "AssumptionProfileAPI_post lenient_orm timber_shortage empty_store =
         (Inr (status_message ''OK'' ''Assumption Profile Created!!''),
          empty_store\<lparr>assumption_profiles := [(1, row)]\<rparr>)"
    by (simp add: lenient_orm_def empty_store_def fresh_pk_def)
  with cdr' cpr' recovery' show ?thesis
    by (intro exI [of _ row] conjI)
qed

text \<open>
  Claim C2. On every request that creates an assumption profile, whatever the four macro
  inputs are, each of \<^verbatim>\<open>constant_default_rate\<close>, \<^verbatim>\<open>constant_prepayment_rate\<close>
  and \<^verbatim>\<open>recovery\<close> that was supplied with a value other than -100 is stored on the
  created row as that very value. (-100 is the int and the float of that value: Python's
  \<^verbatim>\<open>!=\<close> tells neither from the literal.)
\<close>

theorem supplied_values_stored_unchanged:
  assumes "AssumptionProfileAPI_post db body st = (Inr resp, st')"
  shows "\<exists>row c p r.
           st' = st\<lparr>assumption_profiles :=
                      assumption_profiles st @ [(fresh_pk (assumption_profiles st), row)]\<rparr> \<and>
           py_getitem body ''constant_default_rate'' = Inr c \<and>
           py_getitem body ''constant_prepayment_rate'' = Inr p \<and>
           py_getitem body ''recovery'' = Inr r \<and>
           (c \<noteq> JInt (- 100) \<and> c \<noteq> JFloat (Finite (- 100)) \<longrightarrow>
              ap_constant_default_rate row = Some c) \<and>
           (p \<noteq> JInt (- 100) \<and> p \<noteq> JFloat (Finite (- 100)) \<longrightarrow>
              ap_constant_prepayment_rate row = Some p) \<and>
           (r \<noteq> JInt (- 100) \<and> r \<noteq> JFloat (Finite (- 100)) \<longrightarrow>
              ap_recovery row = Some r)"
proof -
  from assms obtain row where
    row: "resolveAssumptionProfile body = Inr row"
    and st': "st' = st\<lparr>assumption_profiles :=
                        assumption_profiles st @ [(fresh_pk (assumption_profiles st), row)]\<rparr>"
    by (auto simp: AssumptionProfileAPI_post_Inr)
  from resolveAssumptionProfile_Inr [OF row] obtain n g u h y c p r l cdr cpr recovery where
    loop: "py_getitem body ''constant_default_rate'' = Inr c"
      "py_getitem body ''constant_prepayment_rate'' = Inr p"
      "py_getitem body ''recovery'' = Inr r"
      "(if py_ne c (- 100) then Inr c else compute_cdr g u) = Inr cdr"
      "(if py_ne p (- 100) then Inr p else compute_cpr y) = Inr cpr"
      "(if py_ne r (- 100) then Inr r else compute_recovery h) = Inr recovery"
      "row = \<lparr>ap_name = n, ap_gdp_growth = g, ap_unemployment_rate = u,
              ap_national_home_price_index_growth = h, ap_high_yield_spread = y,
              ap_constant_default_rate = Some cdr, ap_constant_prepayment_rate = Some cpr,
              ap_recovery = Some recovery, ap_lag = Some l\<rparr>"
    by blast
  have "c \<noteq> JInt (- 100) \<and> c \<noteq> JFloat (Finite (- 100)) \<longrightarrow> ap_constant_default_rate row = Some c"
    using loop by (auto simp: py_ne_sentinel split: if_splits)
  moreover
  have "p \<noteq> JInt (- 100) \<and> p \<noteq> JFloat (Finite (- 100)) \<longrightarrow>
          ap_constant_prepayment_rate row = Some p"
    using loop by (auto simp: py_ne_sentinel split: if_splits)
  moreover
  have "r \<noteq> JInt (- 100) \<and> r \<noteq> JFloat (Finite (- 100)) \<longrightarrow> ap_recovery row = Some r"
    using loop by (auto simp: py_ne_sentinel split: if_splits)
  ultimately show ?thesis
    using st' loop(1-3) by blast
qed

theorem supplied_values_stored_unchanged_witness:
  "\<exists>row. AssumptionProfileAPI_post lenient_orm gdp_growing empty_store =
            (Inr (status_message ''OK'' ''Assumption Profile Created!!''),
             empty_store\<lparr>assumption_profiles := [(1, row)]\<rparr>) \<and>
         ap_constant_default_rate row = Some (JFloat (Finite 10.75)) \<and>
         ap_constant_prepayment_rate row = Some (JFloat (Finite 17.25)) \<and>
         ap_recovery row = Some (JFloat (Finite (- 89.25)))"
proof -
  have "resolveAssumptionProfile gdp_growing =
          Inr \<lparr>ap_name = JStr ''GDP Growing at 3%'', ap_gdp_growth = JStr ''about four'',
               ap_unemployment_rate = JFloat (Finite 8.5),
               ap_national_home_price_index_growth = JNull,
               ap_high_yield_spread = JFloat (Finite 8.25),
               ap_constant_default_rate = Some (JFloat (Finite 10.75)),
               ap_constant_prepayment_rate = Some (JFloat (Finite 17.25)),
               ap_recovery = Some (JFloat (Finite (- 89.25))),
               ap_lag = Some (JInt 107)\<rparr>"
    by (subst resolveAssumptionProfile_present
          [where n = "JStr ''GDP Growing at 3%''" and g = "JStr ''about four''"
             and u = "JFloat (Finite 8.5)" and h = JNull and y = "JFloat (Finite 8.25)"
             and c = "JFloat (Finite 10.75)" and p = "JFloat (Finite 17.25)"
             and r = "JFloat (Finite (- 89.25))" and l = "JInt 107"])
       (simp_all add: gdp_growing_def py_getitem_def py_ne_sentinel)
  then obtain resp st' where
    run: "AssumptionProfileAPI_post lenient_orm gdp_growing empty_store = (Inr resp, st')"
    and resp: "resp = status_message ''OK'' ''Assumption Profile Created!!''"
    by (simp add: AssumptionProfileAPI_post_Inr lenient_orm_def)
  from supplied_values_stored_unchanged [OF run] obtain row c p r where
    st': "st' = empty_store\<lparr>assumption_profiles := assumption_profiles empty_store @
                          [(fresh_pk (assumption_profiles empty_store), row)]\<rparr>"
    and c: "py_getitem gdp_growing ''constant_default_rate'' = Inr c"
    and p: "py_getitem gdp_growing ''constant_prepayment_rate'' = Inr p"
    and r: "py_getitem gdp_growing ''recovery'' = Inr r"
    and stored:
      "c \<noteq> JInt (- 100) \<and> c \<noteq> JFloat (Finite (- 100)) \<longrightarrow> ap_constant_default_rate row = Some c"
      "p \<noteq> JInt (- 100) \<and> p \<noteq> JFloat (Finite (- 100)) \<longrightarrow>
         ap_constant_prepayment_rate row = Some p"
      "r \<noteq> JInt (- 100) \<and> r \<noteq> JFloat (Finite (- 100)) \<longrightarrow> ap_recovery row = Some r"
    by blast
  from c p r have "c = JFloat (Finite 10.75)" and "p = JFloat (Finite 17.25)"
    and "r = JFloat (Finite (- 89.25))"
    by (simp_all add: gdp_growing_def py_getitem_def)
  with stored have
    "ap_constant_default_rate row = Some (JFloat (Finite 10.75))"
    "ap_constant_prepayment_rate row = Some (JFloat (Finite 17.25))"
    "ap_recovery row = Some (JFloat (Finite (- 89.25)))"
    by simp_all
  moreover from st' have "st' = empty_store\<lparr>assumption_profiles := [(1, row)]\<rparr>"
    by (simp add: empty_store_def fresh_pk_def)
  ultimately show ?thesis
    using run resp by blast
qed

text \<open>
  Claim C3. On every request that creates an assumption profile, the created row holds
  under \<^verbatim>\<open>lag\<close> the value the request supplied, -100 included: the sentinel branch of
  the loop assigns the supplied value too.
\<close>

theorem lag_stored_as_supplied:
  assumes "AssumptionProfileAPI_post db body st = (Inr resp, st')"
  shows "\<exists>row l.
           st' = st\<lparr>assumption_profiles :=
                      assumption_profiles st @ [(fresh_pk (assumption_profiles st), row)]\<rparr> \<and>
           py_getitem body ''lag'' = Inr l \<and> ap_lag row = Some l"
proof -
  from assms obtain row where
    row: "resolveAssumptionProfile body = Inr row"
    and st': "st' = st\<lparr>assumption_profiles :=
                        assumption_profiles st @ [(fresh_pk (assumption_profiles st), row)]\<rparr>"
    by (auto simp: AssumptionProfileAPI_post_Inr)
  from resolveAssumptionProfile_Inr [OF row] obtain l where
    "py_getitem body ''lag'' = Inr l" and "ap_lag row = Some l"
    by force
  with st' show ?thesis
    by blast
qed

theorem lag_stored_as_supplied_witness:
  "\<exists>row. AssumptionProfileAPI_post lenient_orm lag_at_sentinel empty_store =
            (Inr (status_message ''OK'' ''Assumption Profile Created!!''),
             empty_store\<lparr>assumption_profiles := [(1, row)]\<rparr>) \<and>
         ap_constant_prepayment_rate row = Some (JInt 21) \<and>
         ap_lag row = Some (JInt (- 100))"
proof -
  have "\<exists>row. resolveAssumptionProfile lag_at_sentinel = Inr row \<and>
              ap_constant_prepayment_rate row = Some (JInt 21)"
    by (subst resolveAssumptionProfile_floats
          [where n = "JStr ''U.S. Economy Growing 3%''" and gf = "Finite 3.25"
             and uf = "Finite 8.5" and hf = "Finite 3.75" and yf = "Finite 5.25"
             and c = "JInt (- 100)" and p = "JInt 21" and r = "JInt (- 100)"
             and l = "JInt (- 100)"])
       (simp_all add: lag_at_sentinel_def py_getitem_def py_ne_sentinel)
  then obtain resp st' row0 where
    run: "AssumptionProfileAPI_post lenient_orm lag_at_sentinel empty_store = (Inr resp, st')"
    and resp: "resp = status_message ''OK'' ''Assumption Profile Created!!''"
    and st0: "st' = empty_store\<lparr>assumption_profiles := assumption_profiles empty_store @
                          [(fresh_pk (assumption_profiles empty_store), row0)]\<rparr>"
    and cpr: "ap_constant_prepayment_rate row0 = Some (JInt 21)"
    by (auto simp: AssumptionProfileAPI_post_Inr lenient_orm_def)
  from lag_stored_as_supplied [OF run] obtain row l where
    st': "st' = empty_store\<lparr>assumption_profiles := assumption_profiles empty_store @
                          [(fresh_pk (assumption_profiles empty_store), row)]\<rparr>"
    and l: "py_getitem lag_at_sentinel ''lag'' = Inr l"
    and stored: "ap_lag row = Some l"
    by blast
  from st0 st' have "row = row0"
    by (simp add: empty_store_def)
  with cpr have "ap_constant_prepayment_rate row = Some (JInt 21)"
    by simp
  moreover from l have "l = JInt (- 100)"
    by (simp add: lag_at_sentinel_def py_getitem_def)
  with stored have "ap_lag row = Some (JInt (- 100))"
    by simp
  moreover from st' have "st' = empty_store\<lparr>assumption_profiles := [(1, row)]\<rparr>"
    by (simp add: empty_store_def fresh_pk_def)
  ultimately show ?thesis
    using run resp by blast
qed

section \<open>Properties of RiskProfileAPI.post\<close>

text \<open>
  Claim C10. On a JSON object the view looks at nothing but the presence of the key
  \<^verbatim>\<open>name\<close>: without it the request ends in KeyError and the store stays as it was;
  with it, whatever the value (the empty string too), the view hands a profile of exactly
  that name to the store, and answers OK with the profile appended unless the store
  itself refuses the row.
\<close>

theorem createRiskProfile_checks_only_presence_of_name:
  "RiskProfileAPI_post db (JObj kvs) st =
     (case map_of kvs ''name'' of
        None \<Rightarrow> (Inl (KeyError ''name''), st)
      | Some name \<Rightarrow>
          if accepts_RiskProfile db \<lparr>rp_name = name\<rparr>
          then (Inr (status_message ''OK'' ''Risk Profile Created!!''),
                st\<lparr>risk_profiles :=
                     risk_profiles st @ [(fresh_pk (risk_profiles st), \<lparr>rp_name = name\<rparr>)]\<rparr>)
          else (Inl StorageError, st))"
  by (simp add: RiskProfileAPI_post_def py_getitem_def RiskProfile_save_def split: option.splits)

theorem createRiskProfile_checks_only_presence_of_name_witness:
  "RiskProfileAPI_post lenient_orm (JObj [(''name'', JStr [])]) one_profile =
     (Inr (status_message ''OK'' ''Risk Profile Created!!''),
      one_profile\<lparr>risk_profiles :=
        [(2, \<lparr>rp_name = JStr ''FICO Scores Above 500''\<rparr>), (3, \<lparr>rp_name = JStr []\<rparr>)]\<rparr>) \<and>
   RiskProfileAPI_post lenient_orm (JObj [(''title'', JStr ''Zipcodes in NJ'')]) one_profile =
     (Inl (KeyError ''name''), one_profile)"
  using createRiskProfile_checks_only_presence_of_name
          [of lenient_orm "[(''name'', JStr [])]" one_profile]
        createRiskProfile_checks_only_presence_of_name
          [of lenient_orm "[(''title'', JStr ''Zipcodes in NJ'')]" one_profile]
  by (simp add: lenient_orm_def one_profile_def fresh_pk_def)

section \<open>Properties of RiskFactorAPI.post\<close>

lemma py_getitem_in_keys: "py_getitem body k = Inr v \<Longrightarrow> py_in_keys k body = Inr True"
  by (auto simp: py_getitem_def py_in_keys_def split: json.splits option.splits
        dest!: map_of_SomeD intro: image_eqI [where x = "(k, v)"])

lemma foldr_max_upper: "k \<in> set ks \<Longrightarrow> k \<le> foldr max ks (0::nat)"
  by (induction ks) auto

lemma fresh_pk_notin: "fresh_pk tbl \<notin> fst ` set tbl"
proof
  assume "fresh_pk tbl \<in> fst ` set tbl"
  then have "fresh_pk tbl \<le> foldr max (map fst tbl) 0"
    by (intro foldr_max_upper) simp
  then show False
    by (simp add: fresh_pk_def)
qed

lemma RiskProfile_get_pk_rows:
  "RiskProfile_filter_pk db pk st = Inr rows \<Longrightarrow>
   RiskProfile_get_pk db pk st =
     (case rows of [] \<Rightarrow> Inl DoesNotExist | [row] \<Rightarrow> Inr row | _ \<Rightarrow> Inl MultipleObjectsReturned)"
  by (simp add: RiskProfile_get_pk_def)

lemma RiskFactorAPI_post_unknown:
  assumes "py_getitem body ''risk_profile_id'' = Inr pk"
    and "RiskProfile_filter_pk db pk st = Inr []"
  shows "RiskFactorAPI_post db body st =
           (Inr (status_message ''FAIL'' ''Risk Profile provided does not exist.''), st)"
  by (simp add: RiskFactorAPI_post_def py_getitem_in_keys [OF assms(1)] assms)

lemma RiskFactorAPI_post_known:
  assumes "py_getitem body ''risk_profile_id'' = Inr pk"
    and "RiskProfile_filter_pk db pk st = Inr rows"
    and "rows \<noteq> []"
  shows "RiskFactorAPI_post db body st =
           (case bind_err (new_risk_factor_fields db body pk st) (\<lambda>row. RiskFactor_save db row st) of
              Inl e \<Rightarrow> (Inl e, st)
            | Inr (new_risk_factor, st1) \<Rightarrow> create_conditionals db body new_risk_factor st1)"
  by (simp add: RiskFactorAPI_post_def py_getitem_in_keys [OF assms(1)] assms)

text \<open>
  Claim C4. When the supplied \<^verbatim>\<open>risk_profile_id\<close> selects no risk profile, the view
  answers with the FAIL body that says the profile does not exist, and the store is the
  one it started from: no factor and no conditional has been written.
\<close>

theorem createRiskFactor_unknown_profile:
  assumes "py_getitem body ''risk_profile_id'' = Inr pk"
    and "RiskProfile_filter_pk db pk st = Inr []"
  shows "RiskFactorAPI_post db body st =
           (Inr (status_message ''FAIL'' ''Risk Profile provided does not exist.''), st)"
  using assms by (rule RiskFactorAPI_post_unknown)

theorem createRiskFactor_unknown_profile_witness:
  "py_getitem fico_factor ''risk_profile_id'' = Inr (JInt 2) \<and>
   RiskProfile_filter_pk lenient_orm (JInt 2) empty_store = Inr [] \<and>
   RiskFactorAPI_post lenient_orm fico_factor empty_store =
     (Inr (status_message ''FAIL'' ''Risk Profile provided does not exist.''), empty_store)"
proof -
  have pk: "py_getitem fico_factor ''risk_profile_id'' = Inr (JInt 2)"
    by (simp add: fico_factor_def py_getitem_def)
  have none: "RiskProfile_filter_pk lenient_orm (JInt 2) empty_store = Inr []"
    by (simp add: RiskProfile_filter_pk_def lenient_orm_def empty_store_def)
  from pk none createRiskFactor_unknown_profile [OF pk none] show ?thesis
    by simp
qed

lemma new_risk_conditional_Inr:
  "new_risk_conditional fid item = Inr row \<longleftrightarrow>
     py_getitem item ''conditional'' = Inr (rc_conditional row) \<and>
     py_getitem item ''value'' = Inr (rc_value row) \<and>
     rc_risk_factor_id row = fid"
  by (cases "py_getitem item ''conditional''"; cases "py_getitem item ''value''")
     (auto simp: new_risk_conditional_def)

lemma conditionals_round_Inr:
  "bind_err (new_risk_conditional fid item) (\<lambda>row. RiskConditional_save db row st) = Inr st1 \<longleftrightarrow>
     (\<exists>row. new_risk_conditional fid item = Inr row \<and> accepts_RiskConditional db row \<and>
            st1 = st\<lparr>risk_conditionals :=
                       risk_conditionals st @ [(fresh_pk (risk_conditionals st), row)]\<rparr>)"
  by (cases "new_risk_conditional fid item") (auto simp: RiskConditional_save_def)

lemma conditionals_loop_appends:
  "conditionals_loop db fid items st = (res, st') \<Longrightarrow>
     \<exists>new. st' = st\<lparr>risk_conditionals := risk_conditionals st @ new\<rparr> \<and>
           length new \<le> length items \<and>
           map (new_risk_conditional fid) (take (length new) items) = map (\<lambda>row. Inr (snd row)) new \<and>
           (\<forall>row \<in> set new. accepts_RiskConditional db (snd row)) \<and>
           (\<forall>u. res = Inr u \<longrightarrow> length new = length items)"
proof (induction items arbitrary: st)
  case Nil
  then show ?case
    by (intro exI [of _ "[]"]) auto
next
  case (Cons item items)
  show ?case
  proof (cases "bind_err (new_risk_conditional fid item) (\<lambda>row. RiskConditional_save db row st)")
    case (Inl e)
    with Cons.prems show ?thesis
      by (intro exI [of _ "[]"]) auto
  next
    case (Inr st1)
    then obtain row where
      row: "new_risk_conditional fid item = Inr row" "accepts_RiskConditional db row"
      and st1: "st1 = st\<lparr>risk_conditionals :=
                          risk_conditionals st @ [(fresh_pk (risk_conditionals st), row)]\<rparr>"
      by (auto simp: conditionals_round_Inr)
    from Cons.prems Inr have "conditionals_loop db fid items st1 = (res, st')"
      by simp
    from Cons.IH [OF this] obtain new where
      new: "st' = st1\<lparr>risk_conditionals := risk_conditionals st1 @ new\<rparr>"
        "length new \<le> length items"
        "map (new_risk_conditional fid) (take (length new) items) = map (\<lambda>row. Inr (snd row)) new"
        "\<forall>row \<in> set new. accepts_RiskConditional db (snd row)"
        "\<forall>u. res = Inr u \<longrightarrow> length new = length items"
      by blast
    with row st1 show ?thesis
      by (intro exI [of _ "(fresh_pk (risk_conditionals st), row) # new"]) simp
  qed
qed

lemma conditionals_loop_fails_at:
  assumes "map (new_risk_conditional fid) written = map Inr rows"
    and "\<forall>row \<in> set rows. accepts_RiskConditional db row"
    and "case new_risk_conditional fid failing of
           Inl e' \<Rightarrow> e' = e
         | Inr row \<Rightarrow> \<not> accepts_RiskConditional db row \<and> e = StorageError"
  shows "\<exists>ks. length ks = length rows \<and>
              conditionals_loop db fid (written @ failing # rest) st =
                (Inl e, st\<lparr>risk_conditionals := risk_conditionals st @ zip ks rows\<rparr>)"
  using assms(1,2)
proof (induction written arbitrary: rows st)
  case Nil
  with assms(3) show ?case
    by (intro exI [of _ "[]"])
       (auto simp: RiskConditional_save_def split: sum.splits)
next
  case (Cons item written)
  then obtain row rows' where
    rows: "rows = row # rows'" "new_risk_conditional fid item = Inr row"
      "map (new_risk_conditional fid) written = map Inr rows'"
    by (cases rows) auto
  let ?st1 = "st\<lparr>risk_conditionals := risk_conditionals st @ [(fresh_pk (risk_conditionals st), row)]\<rparr>"
  from Cons.prems(2) rows have "\<forall>row \<in> set rows'. accepts_RiskConditional db row"
    and acc: "accepts_RiskConditional db row"
    by simp_all
  from Cons.IH [OF rows(3) this(1), of ?st1] obtain ks where
    "length ks = length rows'"
    "conditionals_loop db fid (written @ failing # rest) ?st1 =
       (Inl e, ?st1\<lparr>risk_conditionals := risk_conditionals ?st1 @ zip ks rows'\<rparr>)"
    by blast
  with rows acc show ?case
    by (intro exI [of _ "fresh_pk (risk_conditionals st) # ks"])
       (simp add: RiskConditional_save_def)
qed

lemma create_conditionals_appends:
  assumes "create_conditionals db body fid st = (res, st')"
  shows "\<exists>new. st' = st\<lparr>risk_conditionals := risk_conditionals st @ new\<rparr> \<and>
           (\<forall>items. bind_err (py_getitem body ''conditionals_list'') py_iter = Inr items \<longrightarrow>
              length new \<le> length items \<and>
              map (new_risk_conditional fid) (take (length new) items) =
                map (\<lambda>row. Inr (snd row)) new \<and>
              (\<forall>u. res = Inr u \<longrightarrow>
                 length new = length items \<and> u = status_message ''PASS'' ''Risk Factor added.'')) \<and>
           (new \<noteq> [] \<longrightarrow> (\<exists>items. bind_err (py_getitem body ''conditionals_list'') py_iter = Inr items)) \<and>
           ((\<exists>u. res = Inr u) \<longrightarrow> (\<exists>items. bind_err (py_getitem body ''conditionals_list'') py_iter = Inr items))"
proof (cases "bind_err (py_getitem body ''conditionals_list'') py_iter")
  case (Inl e)
  with assms show ?thesis
    by (intro exI [of _ "[]"]) (auto simp: create_conditionals_def)
next
  case (Inr items)
  obtain r st2 where loop: "conditionals_loop db fid items st = (r, st2)"
    by (cases "conditionals_loop db fid items st")
  from conditionals_loop_appends [OF loop] obtain new where
    new: "st2 = st\<lparr>risk_conditionals := risk_conditionals st @ new\<rparr>"
      "length new \<le> length items"
      "map (new_risk_conditional fid) (take (length new) items) = map (\<lambda>row. Inr (snd row)) new"
      "\<forall>u. r = Inr u \<longrightarrow> length new = length items"
    by blast
  from assms Inr loop have "st' = st2"
    and "\<forall>u. res = Inr u \<longrightarrow> (\<exists>u'. r = Inr u') \<and> u = status_message ''PASS'' ''Risk Factor added.''"
    by (auto simp: create_conditionals_def split: sum.splits)
  with new Inr show ?thesis
    by (intro exI [of _ new]) auto
qed


lemma new_risk_factor_fields_Inr:
  "new_risk_factor_fields db body pk st = Inr factor \<longleftrightarrow>
     (\<exists>profile. RiskProfile_filter_pk db pk st = Inr [profile] \<and>
        rf_risk_profile_id factor = fst profile \<and>
        py_getitem body ''risk_factor_attribute'' = Inr (rf_attribute factor) \<and>
        py_getitem body ''changing_assumption'' = Inr (rf_changing_assumption factor) \<and>
        py_getitem body ''percentage_change'' = Inr (rf_percentage_change factor))"
proof (cases "RiskProfile_filter_pk db pk st")
  case (Inl e)
  then show ?thesis
    by (simp add: new_risk_factor_fields_def RiskProfile_get_pk_def)
next
  case (Inr rows)
  show ?thesis
  proof (cases "\<exists>profile. rows = [profile]")
    case True
    then obtain profile where "rows = [profile]" ..
    with Inr show ?thesis
      by (cases "py_getitem body ''risk_factor_attribute''";
          cases "py_getitem body ''changing_assumption''";
          cases "py_getitem body ''percentage_change''")
         (auto simp: new_risk_factor_fields_def RiskProfile_get_pk_def)
  next
    case False
    with Inr show ?thesis
      by (cases rows rule: list.exhaust [case_product list.exhaust])
         (auto simp: new_risk_factor_fields_def RiskProfile_get_pk_def split: list.splits)
  qed
qed

lemma RiskFactorAPI_post_saved:
  assumes "py_getitem body ''risk_profile_id'' = Inr pk"
    and "new_risk_factor_fields db body pk st = Inr factor"
    and "accepts_RiskFactor db factor"
  shows "RiskFactorAPI_post db body st =
           create_conditionals db body (fresh_pk (risk_factors st))
             (st\<lparr>risk_factors := risk_factors st @ [(fresh_pk (risk_factors st), factor)]\<rparr>)"
proof -
  from assms(2) obtain profile where "RiskProfile_filter_pk db pk st = Inr [profile]"
    by (auto simp: new_risk_factor_fields_Inr)
  from RiskFactorAPI_post_known [OF assms(1) this] assms(2,3) show ?thesis
    by (simp add: RiskFactor_save_def)
qed

lemma RiskFactorAPI_post_cases:
  assumes "RiskFactorAPI_post db body st = (res, st')"
  shows "(st' = st \<and> (\<forall>u. res = Inr u \<longrightarrow>
            (\<forall>pk rows. py_getitem body ''risk_profile_id'' = Inr pk \<longrightarrow>
               RiskProfile_filter_pk db pk st = Inr rows \<longrightarrow> rows = []))) \<or>
         (\<exists>pk factor.
            py_getitem body ''risk_profile_id'' = Inr pk \<and>
            new_risk_factor_fields db body pk st = Inr factor \<and>
            accepts_RiskFactor db factor \<and>
            create_conditionals db body (fresh_pk (risk_factors st))
              (st\<lparr>risk_factors := risk_factors st @ [(fresh_pk (risk_factors st), factor)]\<rparr>) =
            (res, st'))"
proof (cases "py_getitem body ''risk_profile_id''")
  case (Inl e)
  with assms show ?thesis
    by (auto simp: RiskFactorAPI_post_def split: sum.splits bool.splits)
next
  case pk: (Inr pk)
  show ?thesis
  proof (cases "RiskProfile_filter_pk db pk st")
    case (Inl e)
    with assms pk show ?thesis
      by (simp add: RiskFactorAPI_post_def py_getitem_in_keys [OF pk])
  next
    case (Inr rows)
    show ?thesis
    proof (cases "rows = []")
      case True
      with assms pk Inr show ?thesis
        by (simp add: RiskFactorAPI_post_unknown)
    next
      case False
      note known = RiskFactorAPI_post_known [OF pk Inr False]
      show ?thesis
      proof (cases "new_risk_factor_fields db body pk st")
        case (Inl e)
        with assms known show ?thesis
          by auto
      next
        case factor: (Inr factor)
        show ?thesis
        proof (cases "accepts_RiskFactor db factor")
          case True
          with assms pk factor show ?thesis
            by (auto simp: RiskFactorAPI_post_saved)
        next
          case False
          with assms known factor show ?thesis
            by (auto simp: RiskFactor_save_def)
        qed
      qed
    qed
  qed
qed

text \<open>
  Claim C5. A run of the view that succeeds on an existing profile and a list of
  \<open>N\<close> conditionals answers PASS and leaves the store with exactly one more factor, owned
  by that profile and carrying the three supplied fields, and exactly \<open>N\<close> more
  conditionals, in the order of the list: the \<open>i\<close>-th new conditional belongs to the new
  factor and holds the \<open>i\<close>-th entry's \<^verbatim>\<open>conditional\<close> and \<^verbatim>\<open>value\<close>.
\<close>

theorem createRiskFactor_persists_factor_and_conditionals:
  assumes "RiskFactorAPI_post db body st = (Inr resp, st')"
    and "py_getitem body ''risk_profile_id'' = Inr pk"
    and "RiskProfile_filter_pk db pk st = Inr rows"
    and "rows \<noteq> []"
    and "py_getitem body ''conditionals_list'' = Inr (JList items)"
  shows "\<exists>profile factor new.
           rows = [profile] \<and>
           resp = status_message ''PASS'' ''Risk Factor added.'' \<and>
           rf_risk_profile_id factor = fst profile \<and>
           py_getitem body ''risk_factor_attribute'' = Inr (rf_attribute factor) \<and>
           py_getitem body ''changing_assumption'' = Inr (rf_changing_assumption factor) \<and>
           py_getitem body ''percentage_change'' = Inr (rf_percentage_change factor) \<and>
           fresh_pk (risk_factors st) \<notin> fst ` set (risk_factors st) \<and>
           st' = st\<lparr>risk_factors := risk_factors st @ [(fresh_pk (risk_factors st), factor)],
                     risk_conditionals := risk_conditionals st @ new\<rparr> \<and>
           length new = length items \<and>
           (\<forall>i < length items.
              rc_risk_factor_id (snd (new ! i)) = fresh_pk (risk_factors st) \<and>
              py_getitem (items ! i) ''conditional'' = Inr (rc_conditional (snd (new ! i))) \<and>
              py_getitem (items ! i) ''value'' = Inr (rc_value (snd (new ! i))))"
proof -
  let ?fid = "fresh_pk (risk_factors st)"
  from RiskFactorAPI_post_cases [OF assms(1)] assms(2-4) obtain factor where
    factor: "new_risk_factor_fields db body pk st = Inr factor"
    and run: "create_conditionals db body ?fid
                (st\<lparr>risk_factors := risk_factors st @ [(?fid, factor)]\<rparr>) = (Inr resp, st')"
    by auto
  from factor assms(3) obtain profile where
    profile: "rows = [profile]" "rf_risk_profile_id factor = fst profile"
      "py_getitem body ''risk_factor_attribute'' = Inr (rf_attribute factor)"
      "py_getitem body ''changing_assumption'' = Inr (rf_changing_assumption factor)"
      "py_getitem body ''percentage_change'' = Inr (rf_percentage_change factor)"
    by (auto simp: new_risk_factor_fields_Inr)
  have items: "bind_err (py_getitem body ''conditionals_list'') py_iter = Inr items"
    by (simp add: assms(5) py_iter_def)
  from create_conditionals_appends [OF run] items obtain new where
    new: "st' = st\<lparr>risk_factors := risk_factors st @ [(?fid, factor)],
                    risk_conditionals := risk_conditionals st @ new\<rparr>"
      "length new = length items"
      "map (new_risk_conditional ?fid) (take (length new) items) = map (\<lambda>row. Inr (snd row)) new"
      "resp = status_message ''PASS'' ''Risk Factor added.''"
    by auto
  have "rc_risk_factor_id (snd (new ! i)) = ?fid \<and>
        py_getitem (items ! i) ''conditional'' = Inr (rc_conditional (snd (new ! i))) \<and>
        py_getitem (items ! i) ''value'' = Inr (rc_value (snd (new ! i)))"
    if "i < length items" for i
  proof -
    from new(2,3) have "map (new_risk_conditional ?fid) items ! i = map (\<lambda>row. Inr (snd row)) new ! i"
      by simp
    with that new(2) have "new_risk_conditional ?fid (items ! i) = Inr (snd (new ! i))"
      by simp
    then show ?thesis
      by (simp add: new_risk_conditional_Inr)
  qed
  with profile new fresh_pk_notin [of "risk_factors st"] show ?thesis
    by (intro exI [of _ profile] exI [of _ factor] exI [of _ new]) simp
qed

lemma fico_factor_run:
  "RiskFactorAPI_post lenient_orm fico_factor one_profile =
     (Inr (status_message ''PASS'' ''Risk Factor added.''),
      one_profile\<lparr>risk_factors :=
          [(1, \<lparr>rf_risk_profile_id = 2, rf_attribute = JStr ''FICO'',
                rf_changing_assumption = JStr ''CDR'', rf_percentage_change = JInt (- 5)\<rparr>)],
        risk_conditionals :=
          [(1, \<lparr>rc_risk_factor_id = 1, rc_conditional = JStr ''>'', rc_value = JInt 450\<rparr>),
           (2, \<lparr>rc_risk_factor_id = 1, rc_conditional = JStr ''<'', rc_value = JInt 550\<rparr>)]\<rparr>)"
  by (simp add: RiskFactorAPI_post_def fico_factor_def one_profile_def lenient_orm_def
        py_in_keys_def py_getitem_def RiskProfile_filter_pk_def new_risk_factor_fields_def
        RiskProfile_get_pk_def RiskFactor_save_def create_conditionals_def py_iter_def
        new_risk_conditional_def RiskConditional_save_def fresh_pk_def)

theorem createRiskFactor_persists_factor_and_conditionals_witness:
  "\<exists>new. RiskFactorAPI_post lenient_orm fico_factor one_profile =
            (Inr (status_message ''PASS'' ''Risk Factor added.''),
             one_profile\<lparr>risk_factors :=
                 [(1, \<lparr>rf_risk_profile_id = 2, rf_attribute = JStr ''FICO'',
                       rf_changing_assumption = JStr ''CDR'',
                       rf_percentage_change = JInt (- 5)\<rparr>)],
               risk_conditionals := new\<rparr>) \<and>
         length new = 2 \<and>
         map (\<lambda>row. (rc_risk_factor_id (snd row), rc_conditional (snd row), rc_value (snd row))) new =
           [(1, JStr ''>'', JInt 450), (1, JStr ''<'', JInt 550)]"
proof -
  let ?items = "[JObj [(''conditional'', JStr ''>''), (''value'', JInt 450)],
                 JObj [(''conditional'', JStr ''<''), (''value'', JInt 550)]]"
  let ?rows = "[(2, \<lparr>rp_name = JStr ''FICO Scores Above 500''\<rparr>)]"
  have pk: "py_getitem fico_factor ''risk_profile_id'' = Inr (JInt 2)"
    and items: "py_getitem fico_factor ''conditionals_list'' = Inr (JList ?items)"
    by (simp_all add: fico_factor_def py_getitem_def)
  have rows: "RiskProfile_filter_pk lenient_orm (JInt 2) one_profile = Inr ?rows"
    by (simp add: RiskProfile_filter_pk_def lenient_orm_def one_profile_def)
  have known: "?rows \<noteq> []"
    by simp
  from createRiskFactor_persists_factor_and_conditionals [OF fico_factor_run pk rows known items]
  obtain profile factor new where
    st': "one_profile\<lparr>risk_factors :=
              [(1, \<lparr>rf_risk_profile_id = 2, rf_attribute = JStr ''FICO'',
                    rf_changing_assumption = JStr ''CDR'', rf_percentage_change = JInt (- 5)\<rparr>)],
            risk_conditionals :=
              [(1, \<lparr>rc_risk_factor_id = 1, rc_conditional = JStr ''>'', rc_value = JInt 450\<rparr>),
               (2, \<lparr>rc_risk_factor_id = 1, rc_conditional = JStr ''<'', rc_value = JInt 550\<rparr>)]\<rparr> =
          one_profile\<lparr>risk_factors :=
              risk_factors one_profile @ [(fresh_pk (risk_factors one_profile), factor)],
            risk_conditionals := risk_conditionals one_profile @ new\<rparr>"
    and len: "length new = length ?items"
    by blast
  from st' have
    "new = [(1, \<lparr>rc_risk_factor_id = 1, rc_conditional = JStr ''>'', rc_value = JInt 450\<rparr>),
            (2, \<lparr>rc_risk_factor_id = 1, rc_conditional = JStr ''<'', rc_value = JInt 550\<rparr>)]"
    by (auto simp: one_profile_def)
  with len show ?thesis
    by (intro exI [of _ new]) (simp add: fico_factor_run)
qed

text \<open>
  Claim C6. The writes of the view are not undone. When the factor has been saved, the
  first \<open>k - 1\<close> entries of the list are built and taken by the store, and the \<open>k\<close>-th
  round raises (an entry without \<^verbatim>\<open>conditional\<close> or \<^verbatim>\<open>value\<close>, or a row the store
  refuses), the request ends in that error and the store holds the new factor and exactly
  the \<open>k - 1\<close> conditionals of those entries, in order; the entries after the \<open>k\<close>-th
  are never looked at.
\<close>

theorem createRiskFactor_keeps_partial_writes:
  assumes "py_getitem body ''risk_profile_id'' = Inr pk"
    and "new_risk_factor_fields db body pk st = Inr factor"
    and "accepts_RiskFactor db factor"
    and "py_getitem body ''conditionals_list'' = Inr (JList (written @ failing # rest))"
    and "map (new_risk_conditional (fresh_pk (risk_factors st))) written = map Inr rows"
    and "\<forall>row \<in> set rows. accepts_RiskConditional db row"
    and "case new_risk_conditional (fresh_pk (risk_factors st)) failing of
           Inl e' \<Rightarrow> e' = e
         | Inr row \<Rightarrow> \<not> accepts_RiskConditional db row \<and> e = StorageError"
  shows "\<exists>ks. length ks = length written \<and>
           RiskFactorAPI_post db body st =
             (Inl e,
              st\<lparr>risk_factors := risk_factors st @ [(fresh_pk (risk_factors st), factor)],
                  risk_conditionals := risk_conditionals st @ zip ks rows\<rparr>)"
proof -
  let ?fid = "fresh_pk (risk_factors st)"
  let ?st1 = "st\<lparr>risk_factors := risk_factors st @ [(?fid, factor)]\<rparr>"
  from conditionals_loop_fails_at [OF assms(5-7), of rest ?st1] obtain ks where
    ks: "length ks = length rows"
    and loop: "conditionals_loop db ?fid (written @ failing # rest) ?st1 =
                 (Inl e, ?st1\<lparr>risk_conditionals := risk_conditionals ?st1 @ zip ks rows\<rparr>)"
    by blast
  from assms(5) have "length written = length rows"
    by (rule map_eq_imp_length_eq)
  with ks loop show ?thesis
    by (intro exI [of _ ks])
       (simp add: RiskFactorAPI_post_saved [OF assms(1-3)] create_conditionals_def assms(4)
          py_iter_def)
qed

theorem createRiskFactor_keeps_partial_writes_witness:
  "\<exists>k. RiskFactorAPI_post lenient_orm missing_value one_profile =
          (Inl (KeyError ''value''),
           one_profile\<lparr>risk_factors :=
               [(1, \<lparr>rf_risk_profile_id = 2, rf_attribute = JStr ''state'',
                     rf_changing_assumption = JStr ''recovery'', rf_percentage_change = JInt 2\<rparr>)],
             risk_conditionals :=
               [(k, \<lparr>rc_risk_factor_id = 1, rc_conditional = JStr ''>'', rc_value = JInt 450\<rparr>)]\<rparr>)"
proof -
  let ?factor = "\<lparr>rf_risk_profile_id = 2, rf_attribute = JStr ''state'',
                  rf_changing_assumption = JStr ''recovery'', rf_percentage_change = JInt 2\<rparr>"
  let ?written = "[JObj [(''conditional'', JStr ''>''), (''value'', JInt 450)]]"
  let ?failing = "JObj [(''conditional'', JStr ''<'')]"
  let ?rest = "[JObj [(''conditional'', JStr ''<=''), (''value'', JInt 700)]]"
  let ?rows = "[\<lparr>rc_risk_factor_id = 1, rc_conditional = JStr ''>'', rc_value = JInt 450\<rparr>]"
  have fid: "fresh_pk (risk_factors one_profile) = 1"
    by (simp add: one_profile_def fresh_pk_def)
  have pk: "py_getitem missing_value ''risk_profile_id'' = Inr (JInt 2)"
    by (simp add: missing_value_def py_getitem_def)
  have factor: "new_risk_factor_fields lenient_orm missing_value (JInt 2) one_profile = Inr ?factor"
    by (simp add: new_risk_factor_fields_def RiskProfile_get_pk_def RiskProfile_filter_pk_def
          lenient_orm_def one_profile_def missing_value_def py_getitem_def)
  have taken: "accepts_RiskFactor lenient_orm ?factor"
    by (simp add: lenient_orm_def)
  have items: "py_getitem missing_value ''conditionals_list'' =
                 Inr (JList (?written @ ?failing # ?rest))"
    by (simp add: missing_value_def py_getitem_def)
  have written: "map (new_risk_conditional (fresh_pk (risk_factors one_profile))) ?written =
                   map Inr ?rows"
    by (simp add: fid new_risk_conditional_def py_getitem_def)
  have rows: "\<forall>row \<in> set ?rows. accepts_RiskConditional lenient_orm row"
    by (simp add: lenient_orm_def)
  have failing: "case new_risk_conditional (fresh_pk (risk_factors one_profile)) ?failing of
                   Inl e' \<Rightarrow> e' = KeyError ''value''
                 | Inr row \<Rightarrow> \<not> accepts_RiskConditional lenient_orm row \<and>
                     KeyError ''value'' = StorageError"
    by (simp add: new_risk_conditional_def py_getitem_def)
  from createRiskFactor_keeps_partial_writes [OF pk factor taken items written rows failing]
  obtain ks where "length ks = length ?written"
    and run: "RiskFactorAPI_post lenient_orm missing_value one_profile =
                (Inl (KeyError ''value''),
                 one_profile\<lparr>risk_factors :=
                     risk_factors one_profile @ [(fresh_pk (risk_factors one_profile), ?factor)],
                   risk_conditionals := risk_conditionals one_profile @ zip ks ?rows\<rparr>)"
    by blast
  then obtain k where "ks = [k]"
    by (cases ks) auto
  with run have "RiskFactorAPI_post lenient_orm missing_value one_profile =
                (Inl (KeyError ''value''),
                 one_profile\<lparr>risk_factors := [(1, ?factor)],
                   risk_conditionals :=
                     [(k, \<lparr>rc_risk_factor_id = 1, rc_conditional = JStr ''>'', rc_value = JInt 450\<rparr>)]\<rparr>)"
    by (simp add: fid) (simp add: one_profile_def)
  then show ?thesis
    by (rule exI [of _ k])
qed

text \<open>
  Claim C9 says that only the comparison symbols \<open>>\<close>, \<open><\<close>, \<open>>=\<close>, \<open><=\<close> and
  \<open>==\<close> are ever stored as the operator of a conditional. The view compares the
  operator with nothing: on a store that refuses no row, an entry whose operator is
  \<open>!=\<close> is written as it stands.
\<close>

theorem unlisted_operator_is_stored:
  "RiskFactorAPI_post lenient_orm unlisted_operator one_profile =
     (Inr (status_message ''PASS'' ''Risk Factor added.''),
      one_profile\<lparr>risk_factors :=
          [(1, \<lparr>rf_risk_profile_id = 2, rf_attribute = JStr ''FICO'',
                rf_changing_assumption = JStr ''CDR'', rf_percentage_change = JInt (- 5)\<rparr>)],
        risk_conditionals :=
          [(1, \<lparr>rc_risk_factor_id = 1, rc_conditional = JStr ''!='', rc_value = JInt 450\<rparr>)]\<rparr>) \<and>
   JStr ''!='' \<notin> set [JStr ''>'', JStr ''<'', JStr ''>='', JStr ''<='', JStr ''=='']"
  by (simp add: RiskFactorAPI_post_def unlisted_operator_def one_profile_def lenient_orm_def
        py_in_keys_def py_getitem_def RiskProfile_filter_pk_def new_risk_factor_fields_def
        RiskProfile_get_pk_def RiskFactor_save_def create_conditionals_def py_iter_def
        new_risk_conditional_def RiskConditional_save_def fresh_pk_def)

text \<open>
  Claim C9, amended. Whatever the request and however the run ends, each conditional the
  view adds to the store carries as its operator the value found under
  \<^verbatim>\<open>conditional\<close> in an entry of the request's \<^verbatim>\<open>conditionals_list\<close>,
  unchanged.
\<close>

theorem stored_operator_is_supplied_operator:
  "\<exists>new. risk_conditionals (snd (RiskFactorAPI_post db body st)) = risk_conditionals st @ new \<and>
         (\<forall>row \<in> set new.
            \<exists>items. bind_err (py_getitem body ''conditionals_list'') py_iter = Inr items \<and>
                    (\<exists>item \<in> set items.
                       py_getitem item ''conditional'' = Inr (rc_conditional (snd row))))"
proof -
  obtain res st' where run: "RiskFactorAPI_post db body st = (res, st')"
    by (cases "RiskFactorAPI_post db body st")
  from RiskFactorAPI_post_cases [OF run] show ?thesis
  proof (elim disjE exE conjE)
    assume "st' = st"
    with run show ?thesis
      by (intro exI [of _ "[]"]) simp
  next
    fix pk factor
    let ?fid = "fresh_pk (risk_factors st)"
    assume "create_conditionals db body ?fid
              (st\<lparr>risk_factors := risk_factors st @ [(?fid, factor)]\<rparr>) = (res, st')"
    from create_conditionals_appends [OF this] obtain new where
      st': "risk_conditionals st' = risk_conditionals st @ new"
      and new: "\<forall>items. bind_err (py_getitem body ''conditionals_list'') py_iter = Inr items \<longrightarrow>
                  length new \<le> length items \<and>
                  map (new_risk_conditional ?fid) (take (length new) items) =
                    map (\<lambda>row. Inr (snd row)) new"
      and iter: "new \<noteq> [] \<longrightarrow>
                   (\<exists>items. bind_err (py_getitem body ''conditionals_list'') py_iter = Inr items)"
      by auto
    have "\<exists>items. bind_err (py_getitem body ''conditionals_list'') py_iter = Inr items \<and>
                  (\<exists>item \<in> set items.
                     py_getitem item ''conditional'' = Inr (rc_conditional (snd row)))"
      if "row \<in> set new" for row
    proof -
      from that iter obtain items where
        items: "bind_err (py_getitem body ''conditionals_list'') py_iter = Inr items"
        by auto
      from that obtain i where i: "i < length new" "new ! i = row"
        by (auto simp: in_set_conv_nth)
      from new items have len: "length new \<le> length items"
        and eq: "map (new_risk_conditional ?fid) (take (length new) items) =
                   map (\<lambda>row. Inr (snd row)) new"
        by simp_all
      from eq have "map (new_risk_conditional ?fid) (take (length new) items) ! i =
                      map (\<lambda>row. Inr (snd row)) new ! i"
        by simp
      with i len have "new_risk_conditional ?fid (items ! i) = Inr (snd row)"
        by simp
      then have "py_getitem (items ! i) ''conditional'' = Inr (rc_conditional (snd row))"
        by (simp add: new_risk_conditional_Inr)
      moreover from i len have "items ! i \<in> set items"
        by simp
      ultimately show ?thesis
        using items by blast
    qed
    with st' run show ?thesis
      by (intro exI [of _ new]) simp
  qed
qed

theorem stored_operator_is_supplied_operator_witness:
  "\<exists>new. risk_conditionals (snd (RiskFactorAPI_post lenient_orm fico_factor one_profile)) =
            risk_conditionals one_profile @ new \<and>
         map (\<lambda>row. rc_conditional (snd row)) new = [JStr ''>'', JStr ''<'']"
proof -
  from stored_operator_is_supplied_operator [of lenient_orm fico_factor one_profile]
  obtain new where
    "risk_conditionals (snd (RiskFactorAPI_post lenient_orm fico_factor one_profile)) =
       risk_conditionals one_profile @ new"
    by blast
  moreover from this have
    "new = [(1, \<lparr>rc_risk_factor_id = 1, rc_conditional = JStr ''>'', rc_value = JInt 450\<rparr>),
            (2, \<lparr>rc_risk_factor_id = 1, rc_conditional = JStr ''<'', rc_value = JInt 550\<rparr>)]"
    by (simp add: fico_factor_run) (simp add: one_profile_def)
  ultimately show ?thesis
    by (intro exI [of _ new]) simp
qed

section \<open>Missing fields\<close>

lemma bind_err_py_getitem:
  "bind_err (py_getitem (JObj kvs) k) f =
     (case map_of kvs k of None \<Rightarrow> Inl (KeyError k) | Some v \<Rightarrow> f v)"
  by (simp add: py_getitem_def split: option.splits)

lemma resolveAssumptionProfile_missing:
  assumes "find (\<lambda>k. map_of kvs k = None)
             [''name'', ''gdp_growth'', ''unemployment_rate'', ''national_home_price_index'',
              ''high_yield_spread'', ''constant_default_rate'', ''constant_prepayment_rate'',
              ''recovery'', ''lag''] = Some k"
  shows "resolveAssumptionProfile (JObj kvs) = Inl (KeyError k)"
  using assms
  by (simp add: resolveAssumptionProfile_def bind_err_py_getitem Let_def
        split: option.splits if_splits)

lemma new_risk_factor_fields_missing:
  assumes "RiskProfile_filter_pk db pk st = Inr [profile]"
    and "find (\<lambda>k. map_of kvs k = None)
           [''risk_factor_attribute'', ''changing_assumption'', ''percentage_change''] = Some k"
  shows "new_risk_factor_fields db (JObj kvs) pk st = Inl (KeyError k)"
  using assms(2)
  by (simp add: new_risk_factor_fields_def RiskProfile_get_pk_rows [OF assms(1)]
        bind_err_py_getitem split: option.splits if_splits)

text \<open>
  Claim C8 says that no create operation answers a missing required field with a
  status-and-message body. \<^verbatim>\<open>RiskFactorAPI.post\<close> tests for \<^verbatim>\<open>risk_profile_id\<close>
  before reading it: a request without that field gets the FAIL body, and nothing is
  raised.
\<close>

theorem missing_risk_profile_id_is_reported:
  "RiskFactorAPI_post lenient_orm no_profile_id one_profile =
     (Inr (status_message ''FAIL'' ''Risk Profile ID must be provided.''), one_profile)"
  by (simp add: RiskFactorAPI_post_def no_profile_id_def py_in_keys_def)

text \<open>
  Claim C8, amended. On a JSON object, the first required field that is missing (in the
  order the view reads them) ends the request in KeyError for that field, with no
  status-and-message body: \<^verbatim>\<open>name\<close> for \<^verbatim>\<open>RiskProfileAPI.post\<close>; the nine fields
  of \<^verbatim>\<open>AssumptionProfileAPI.post\<close>; and for \<^verbatim>\<open>RiskFactorAPI.post\<close>, once
  \<^verbatim>\<open>risk_profile_id\<close> selects one profile, the three fields of the factor, and
  \<^verbatim>\<open>conditionals_list\<close> once the factor is saved. A missing \<^verbatim>\<open>risk_profile_id\<close> is
  the one field a view reports: \<^verbatim>\<open>RiskFactorAPI.post\<close> answers it with the FAIL body.
\<close>

theorem missing_fields_raise_KeyError:
  "(map_of kvs ''name'' = None \<longrightarrow>
      RiskProfileAPI_post db (JObj kvs) st = (Inl (KeyError ''name''), st)) \<and>
   (\<forall>k. find (\<lambda>k. map_of kvs k = None)
           [''name'', ''gdp_growth'', ''unemployment_rate'', ''national_home_price_index'',
            ''high_yield_spread'', ''constant_default_rate'', ''constant_prepayment_rate'',
            ''recovery'', ''lag''] = Some k \<longrightarrow>
      AssumptionProfileAPI_post db (JObj kvs) st = (Inl (KeyError k), st)) \<and>
   (map_of kvs ''risk_profile_id'' = None \<longrightarrow>
      RiskFactorAPI_post db (JObj kvs) st =
        (Inr (status_message ''FAIL'' ''Risk Profile ID must be provided.''), st)) \<and>
   (\<forall>pk profile k.
      map_of kvs ''risk_profile_id'' = Some pk \<and>
      RiskProfile_filter_pk db pk st = Inr [profile] \<and>
      find (\<lambda>k. map_of kvs k = None)
        [''risk_factor_attribute'', ''changing_assumption'', ''percentage_change''] = Some k \<longrightarrow>
      RiskFactorAPI_post db (JObj kvs) st = (Inl (KeyError k), st)) \<and>
   (\<forall>pk factor.
      map_of kvs ''risk_profile_id'' = Some pk \<and>
      new_risk_factor_fields db (JObj kvs) pk st = Inr factor \<and>
      accepts_RiskFactor db factor \<and>
      map_of kvs ''conditionals_list'' = None \<longrightarrow>
      fst (RiskFactorAPI_post db (JObj kvs) st) = Inl (KeyError ''conditionals_list''))"
proof (intro conjI allI impI)
  assume "map_of kvs ''name'' = None"
  then show "RiskProfileAPI_post db (JObj kvs) st = (Inl (KeyError ''name''), st)"
    by (simp add: RiskProfileAPI_post_def py_getitem_def)
next
  fix k
  assume "find (\<lambda>k. map_of kvs k = None)
            [''name'', ''gdp_growth'', ''unemployment_rate'', ''national_home_price_index'',
             ''high_yield_spread'', ''constant_default_rate'', ''constant_prepayment_rate'',
             ''recovery'', ''lag''] = Some k"
  then have "resolveAssumptionProfile (JObj kvs) = Inl (KeyError k)"
    by (rule resolveAssumptionProfile_missing)
  then show "AssumptionProfileAPI_post db (JObj kvs) st = (Inl (KeyError k), st)"
    by (simp add: AssumptionProfileAPI_post_def)
next
  assume "map_of kvs ''risk_profile_id'' = None"
  then have "''risk_profile_id'' \<notin> fst ` set kvs"
    by (simp add: map_of_eq_None_iff)
  then show "RiskFactorAPI_post db (JObj kvs) st =
               (Inr (status_message ''FAIL'' ''Risk Profile ID must be provided.''), st)"
    by (simp add: RiskFactorAPI_post_def py_in_keys_def)
next
  fix pk profile k
  assume *: "map_of kvs ''risk_profile_id'' = Some pk \<and>
             RiskProfile_filter_pk db pk st = Inr [profile] \<and>
             find (\<lambda>k. map_of kvs k = None)
               [''risk_factor_attribute'', ''changing_assumption'', ''percentage_change''] = Some k"
  then have pk: "py_getitem (JObj kvs) ''risk_profile_id'' = Inr pk"
    by (simp add: py_getitem_def)
  from * have rows: "RiskProfile_filter_pk db pk st = Inr [profile]"
    by simp
  from * have "new_risk_factor_fields db (JObj kvs) pk st = Inl (KeyError k)"
    by (intro new_risk_factor_fields_missing [OF rows]) simp
  then show "RiskFactorAPI_post db (JObj kvs) st = (Inl (KeyError k), st)"
    by (simp add: RiskFactorAPI_post_known [OF pk rows])
next
  fix pk factor
  assume *: "map_of kvs ''risk_profile_id'' = Some pk \<and>
             new_risk_factor_fields db (JObj kvs) pk st = Inr factor \<and>
             accepts_RiskFactor db factor \<and>
             map_of kvs ''conditionals_list'' = None"
  then have pk: "py_getitem (JObj kvs) ''risk_profile_id'' = Inr pk"
    by (simp add: py_getitem_def)
  from * have "py_getitem (JObj kvs) ''conditionals_list'' = Inl (KeyError ''conditionals_list'')"
    by (simp add: py_getitem_def)
  with * show "fst (RiskFactorAPI_post db (JObj kvs) st) = Inl (KeyError ''conditionals_list'')"
    by (simp add: RiskFactorAPI_post_saved [OF pk] create_conditionals_def)
qed

theorem missing_fields_raise_KeyError_witness:
  "RiskProfileAPI_post lenient_orm (JObj [(''title'', JStr ''Zipcodes in NJ'')]) one_profile =
     (Inl (KeyError ''name''), one_profile) \<and>
   AssumptionProfileAPI_post lenient_orm
     (JObj [(''name'', JStr ''U.S. Economy Growing 3%''), (''gdp_growth'', JFloat (Finite 3.25)),
            (''unemployment_rate'', JFloat (Finite 8.5)),
            (''national_home_price_index_growth'', JFloat (Finite 3.75))]) one_profile =
     (Inl (KeyError ''national_home_price_index''), one_profile) \<and>
   RiskFactorAPI_post lenient_orm
     (JObj [(''risk_profile_id'', JInt 2), (''risk_factor_attribute'', JStr ''FICO''),
            (''conditionals_list'', JList [])]) one_profile =
     (Inl (KeyError ''changing_assumption''), one_profile)"
proof -
  have rows: "RiskProfile_filter_pk lenient_orm (JInt 2) one_profile =
                Inr [(2, \<lparr>rp_name = JStr ''FICO Scores Above 500''\<rparr>)]"
    by (simp add: RiskProfile_filter_pk_def lenient_orm_def one_profile_def)
  from missing_fields_raise_KeyError
         [of "[(''title'', JStr ''Zipcodes in NJ'')]" lenient_orm one_profile]
  have "RiskProfileAPI_post lenient_orm (JObj [(''title'', JStr ''Zipcodes in NJ'')]) one_profile =
          (Inl (KeyError ''name''), one_profile)"
    by simp
  moreover
  from missing_fields_raise_KeyError
         [of "[(''name'', JStr ''U.S. Economy Growing 3%''), (''gdp_growth'', JFloat (Finite 3.25)),
               (''unemployment_rate'', JFloat (Finite 8.5)),
               (''national_home_price_index_growth'', JFloat (Finite 3.75))]" lenient_orm one_profile]
  have "AssumptionProfileAPI_post lenient_orm
          (JObj [(''name'', JStr ''U.S. Economy Growing 3%''), (''gdp_growth'', JFloat (Finite 3.25)),
                 (''unemployment_rate'', JFloat (Finite 8.5)),
                 (''national_home_price_index_growth'', JFloat (Finite 3.75))]) one_profile =
          (Inl (KeyError ''national_home_price_index''), one_profile)"
    by simp
  moreover
  from missing_fields_raise_KeyError
         [of "[(''risk_profile_id'', JInt 2), (''risk_factor_attribute'', JStr ''FICO''),
               (''conditionals_list'', JList [])]" lenient_orm one_profile] rows
  have "RiskFactorAPI_post lenient_orm
          (JObj [(''risk_profile_id'', JInt 2), (''risk_factor_attribute'', JStr ''FICO''),
                 (''conditionals_list'', JList [])]) one_profile =
          (Inl (KeyError ''changing_assumption''), one_profile)"
    by simp
  ultimately show ?thesis
    by simp
qed

section \<open>Properties of RiskFactorAPI.get\<close>

lemma RiskFactor_filter_entries_Inr:
  "RiskFactor_filter_entries db fd = Inr ts \<Longrightarrow>
     list_all2 (\<lambda>entry t. RiskFactor_filter_entry db entry = Inr t) fd ts"
  by (induction fd arbitrary: ts) (auto simp: bind_err_Inr)

lemma list_all_tests:
  "list_all2 (\<lambda>entry t. F entry = Inr t) fd ts \<Longrightarrow>
     list_all (\<lambda>t. t row) ts \<longleftrightarrow> (\<forall>entry \<in> set fd. \<exists>t. F entry = Inr t \<and> t row)"
  by (induction rule: list_all2_induct) auto

lemma set_update_distinct:
  "distinct (map fst al) \<Longrightarrow>
     set (AList.update k v al) = insert (k, v) {entry \<in> set al. fst entry \<noteq> k}"
  by (induction al) (auto simp: rev_image_eqI)

lemma RiskProfile_filter_pk_rows:
  assumes "to_pk db pk = Inr kpk"
  shows "RiskProfile_filter_pk db pk st = Inr (filter (\<lambda>row. fst row = kpk) (risk_profiles st))"
  by (simp add: RiskProfile_filter_pk_def assms)

text \<open>
  Claim C7. For a query string (a dict) whose \<^verbatim>\<open>risk_profile_id\<close> the store reads as
  the key \<open>kpk\<close>: when no risk profile has that key the answer is the FAIL body with its
  message, and no list of factors, empty or not, is returned; when a profile has it, a
  list that is returned holds exactly the stored factors owned by that profile that pass
  every other filter of the query string, in the order of the store.
\<close>

theorem listRiskFactors_by_profile:
  assumes "distinct (map fst GET)"
    and "map_of GET ''risk_profile_id'' = Some pk"
    and "to_pk db (JStr pk) = Inr kpk"
  shows "(kpk \<notin> fst ` set (risk_profiles st) \<longrightarrow>
            RiskFactorAPI_get db GET st =
              Inr (status_message ''FAIL'' ''Risk Profile provided does not exist.'') \<and>
            (\<forall>factors. RiskFactorAPI_get db GET st \<noteq> Inr (JObj [(''risk_factors'', JList factors)]))) \<and>
         (kpk \<in> fst ` set (risk_profiles st) \<longrightarrow>
            (\<forall>resp. RiskFactorAPI_get db GET st = Inr resp \<longrightarrow>
               resp =
                 JObj [(''risk_factors'',
                        JList (map RiskFactor_values
                          (filter
                             (\<lambda>row. rf_risk_profile_id (snd row) = kpk \<and>
                                (\<forall>entry \<in> set GET.
                                   fst entry \<noteq> ''risk_profile'' \<longrightarrow>
                                   fst entry \<noteq> ''risk_profile_id'' \<longrightarrow>
                                   (\<exists>t. RiskFactor_lookup db (fst entry) (snd entry) = Inr t \<and> t row)))
                             (risk_factors st))))]))"
proof (intro conjI impI allI)
  let ?rows = "filter (\<lambda>row. fst row = kpk) (risk_profiles st)"
  note rows = RiskProfile_filter_pk_rows [OF assms(3), of st]
  {
    assume "kpk \<notin> fst ` set (risk_profiles st)"
    then have "?rows = []"
      by (auto simp: filter_empty_conv)
    with rows show fail: "RiskFactorAPI_get db GET st =
                 Inr (status_message ''FAIL'' ''Risk Profile provided does not exist.'')"
      by (simp add: RiskFactorAPI_get_def assms(2))
    fix factors
    from fail show "RiskFactorAPI_get db GET st \<noteq> Inr (JObj [(''risk_factors'', JList factors)])"
      by (simp add: status_message_def)
  }
  fix resp
  assume known: "kpk \<in> fst ` set (risk_profiles st)"
    and run: "RiskFactorAPI_get db GET st = Inr resp"
  let ?fd = "AList.update ''risk_profile'' (FQuerySet ?rows)
               (map (\<lambda>kv. (fst kv, FStr (snd kv))) GET)"
  from known have ne: "?rows \<noteq> []"
    by (auto simp: filter_empty_conv)
  with run rows obtain ts where
    ts: "RiskFactor_filter_entries db ?fd = Inr ts"
    and resp: "resp = JObj [(''risk_factors'',
                 JList (map RiskFactor_values
                   (filter (\<lambda>row. list_all (\<lambda>t. t row) ts) (risk_factors st))))]"
    by (auto simp: RiskFactorAPI_get_def assms(2) RiskFactor_filter_def bind_err_Inr)
  have keys: "distinct (map fst (map (\<lambda>kv. (fst kv, FStr (snd kv))) GET))"
    using assms(1) by (simp add: comp_def)
  have "set ?fd =
      insert (''risk_profile'', FQuerySet ?rows)
        {entry \<in> set (map (\<lambda>kv. (fst kv, FStr (snd kv))) GET). fst entry \<noteq> ''risk_profile''}"
    by (rule set_update_distinct [OF keys])
  also have "{entry \<in> set (map (\<lambda>kv. (fst kv, FStr (snd kv))) GET). fst entry \<noteq> ''risk_profile''} =
      (\<lambda>kv. (fst kv, FStr (snd kv))) ` {kv \<in> set GET. fst kv \<noteq> ''risk_profile''}"
    by auto
  finally have entries: "set ?fd =
      insert (''risk_profile'', FQuerySet ?rows)
        ((\<lambda>kv. (fst kv, FStr (snd kv))) ` {kv \<in> set GET. fst kv \<noteq> ''risk_profile''})" .
  from assms(1,2) have only: "s = pk" if "(''risk_profile_id'', s) \<in> set GET" for s
    using that by simp
  have fsts: "fst ` set ?rows = {kpk}"
    using ne by (auto simp: filter_empty_conv rev_image_eqI)
  have "list_all (\<lambda>t. t row) ts \<longleftrightarrow>
          rf_risk_profile_id (snd row) = kpk \<and>
          (\<forall>entry \<in> set GET.
             fst entry \<noteq> ''risk_profile'' \<longrightarrow>
             fst entry \<noteq> ''risk_profile_id'' \<longrightarrow>
             (\<exists>t. RiskFactor_lookup db (fst entry) (snd entry) = Inr t \<and> t row))" for row
  proof -
    define passes where
      "passes entry \<longleftrightarrow> (\<exists>t. RiskFactor_filter_entry db entry = Inr t \<and> t row)" for entry
    have owner: "passes (''risk_profile'', FQuerySet ?rows) \<longleftrightarrow>
                   rf_risk_profile_id (snd row) \<in> fst ` set ?rows"
      by (simp add: passes_def RiskFactor_filter_entry_def)
    have "list_all (\<lambda>t. t row) ts \<longleftrightarrow> (\<forall>entry \<in> set ?fd. passes entry)"
      unfolding passes_def by (rule list_all_tests [OF RiskFactor_filter_entries_Inr [OF ts]])
    also have "\<dots> \<longleftrightarrow>
            passes (''risk_profile'', FQuerySet ?rows) \<and>
            (\<forall>kv \<in> set GET. fst kv \<noteq> ''risk_profile'' \<longrightarrow> passes (fst kv, FStr (snd kv)))"
      unfolding entries by auto
    also have "\<dots> \<longleftrightarrow>
            rf_risk_profile_id (snd row) \<in> fst ` set ?rows \<and>
            (\<forall>kv \<in> set GET. fst kv \<noteq> ''risk_profile'' \<longrightarrow>
               (\<exists>t. RiskFactor_filter_entry db (fst kv, FStr (snd kv)) = Inr t \<and> t row))"
      unfolding owner by (simp add: passes_def)
    also have "\<dots> \<longleftrightarrow>
            rf_risk_profile_id (snd row) = kpk \<and>
            (\<forall>kv \<in> set GET. fst kv \<noteq> ''risk_profile'' \<longrightarrow>
               (\<exists>t. RiskFactor_filter_entry db (fst kv, FStr (snd kv)) = Inr t \<and> t row))"
      unfolding fsts by simp
    also have "\<dots> \<longleftrightarrow>
            rf_risk_profile_id (snd row) = kpk \<and>
            (\<forall>entry \<in> set GET.
               fst entry \<noteq> ''risk_profile'' \<longrightarrow>
               fst entry \<noteq> ''risk_profile_id'' \<longrightarrow>
               (\<exists>t. RiskFactor_lookup db (fst entry) (snd entry) = Inr t \<and> t row))"
    proof (intro conj_cong refl ball_cong imp_cong)
      fix kv
      assume "rf_risk_profile_id (snd row) = kpk" "kv \<in> set GET" "fst kv \<noteq> ''risk_profile''"
      then show "(\<exists>t. RiskFactor_filter_entry db (fst kv, FStr (snd kv)) = Inr t \<and> t row) \<longleftrightarrow>
                 (fst kv \<noteq> ''risk_profile_id'' \<longrightarrow>
                    (\<exists>t. RiskFactor_lookup db (fst kv) (snd kv) = Inr t \<and> t row))"
        using only [of "snd kv"] assms(3)
        by (cases kv) (auto simp: RiskFactor_filter_entry_def)
    qed
    finally show ?thesis .
  qed
  with resp show "resp =
     JObj [(''risk_factors'',
            JList (map RiskFactor_values
              (filter
                 (\<lambda>row. rf_risk_profile_id (snd row) = kpk \<and>
                    (\<forall>entry \<in> set GET.
                       fst entry \<noteq> ''risk_profile'' \<longrightarrow>
                       fst entry \<noteq> ''risk_profile_id'' \<longrightarrow>
                       (\<exists>t. RiskFactor_lookup db (fst entry) (snd entry) = Inr t \<and> t row)))
                 (risk_factors st))))]"
    by simp
qed

theorem listRiskFactors_by_profile_witness:
  "RiskFactorAPI_get lenient_orm [(''risk_profile_id'', ''7'')] three_factors =
     Inr (status_message ''FAIL'' ''Risk Profile provided does not exist.'') \<and>
   RiskFactorAPI_get lenient_orm [(''risk_profile_id'', ''2''), (''attribute'', ''FICO'')]
       three_factors =
     Inr (JObj [(''risk_factors'',
                 JList [JObj [(''id'', JInt 1), (''risk_profile_id'', JInt 2),
                              (''attribute'', JStr ''FICO''),
                              (''changing_assumption'', JStr ''CDR''),
                              (''percentage_change'', JInt (- 5))]])])"
proof -
  have seven: "to_pk lenient_orm (JStr ''7'') = Inr 7"
    and two: "to_pk lenient_orm (JStr ''2'') = Inr 2"
    by (simp_all add: lenient_orm_def parse_pk_def)
  have unknown: "7 \<notin> fst ` set (risk_profiles three_factors)"
    and known: "2 \<in> fst ` set (risk_profiles three_factors)"
    by (simp_all add: three_factors_def)
  from listRiskFactors_by_profile
         [of "[(''risk_profile_id'', ''7'')]" "''7''" lenient_orm 7 three_factors] seven unknown
  have fail: "RiskFactorAPI_get lenient_orm [(''risk_profile_id'', ''7'')] three_factors =
                Inr (status_message ''FAIL'' ''Risk Profile provided does not exist.'')"
    by simp
  let ?GET = "[(''risk_profile_id'', ''2''), (''attribute'', ''FICO'')]"
  obtain resp where run: "RiskFactorAPI_get lenient_orm ?GET three_factors = Inr resp"
    by (simp add: RiskFactorAPI_get_def RiskProfile_filter_pk_rows [OF two] three_factors_def
          RiskFactor_filter_def RiskFactor_filter_entry_def two)
       (simp add: lenient_orm_def)
  have lookup: "RiskFactor_lookup lenient_orm k s =
                  (if k = ''attribute'' then Inr (\<lambda>row. rf_attribute (snd row) = JStr s)
                   else Inl StorageError)" for k s
    by (simp add: lenient_orm_def)
  from listRiskFactors_by_profile
         [of ?GET "''2''" lenient_orm 2 three_factors] two known run
  have "resp =
     JObj [(''risk_factors'',
            JList (map RiskFactor_values
              (filter
                 (\<lambda>row. rf_risk_profile_id (snd row) = 2 \<and>
                    (\<forall>entry \<in> set ?GET.
                       fst entry \<noteq> ''risk_profile'' \<longrightarrow>
                       fst entry \<noteq> ''risk_profile_id'' \<longrightarrow>
                       (\<exists>t. RiskFactor_lookup lenient_orm (fst entry) (snd entry) = Inr t \<and> t row)))
                 (risk_factors three_factors))))]"
    by simp
  then have "resp =
     JObj [(''risk_factors'',
            JList [JObj [(''id'', JInt 1), (''risk_profile_id'', JInt 2),
                         (''attribute'', JStr ''FICO''),
                         (''changing_assumption'', JStr ''CDR''),
                         (''percentage_change'', JInt (- 5))]])]"
    by (simp add: lookup three_factors_def RiskFactor_values_def)
  with run fail show ?thesis
    by simp
qed

end
